theory Spec2Isabelle
  imports Complex_Main
begin

section \<open>Numbers, instants and strings\<close>

text \<open>
  The application is written in TypeScript.  A \<^verbatim>\<open>Date\<close> is modelled by the integer that
  \<^verbatim>\<open>getTime()\<close> returns (milliseconds since the epoch); an entry's ISO string is
  identified with the instant it denotes (\<^verbatim>\<open>toISOString\<close> followed by \<^verbatim>\<open>new Date\<close> is the
  identity on valid dates).  A \<^verbatim>\<open>number\<close> that is not an instant is modelled by a real:
  arithmetic is exact, so the rounding error of IEEE doubles, \<^verbatim>\<open>NaN\<close> (an invalid date)
  and the infinities are outside the model.
\<close>

definition Math_round :: "real \<Rightarrow> int" where
  \<comment> \<open>\<^verbatim>\<open>Math.round\<close>: the nearest integer, a tie going up.\<close>
  "Math_round x = \<lfloor>x + 1 / 2\<rfloor>"

definition Math_floor :: "real \<Rightarrow> int" where
  "Math_floor x = \<lfloor>x\<rfloor>"

definition digit_char :: "nat \<Rightarrow> char" where
  "digit_char d = ''0123456789'' ! d"

fun string_of_nat :: "nat \<Rightarrow> string" where
  "string_of_nat n =
     (if n < 10 then [digit_char n] else string_of_nat (n div 10) @ [digit_char (n mod 10)])"

definition string_of_int :: "int \<Rightarrow> string" where
  \<comment> \<open>What a template literal prints for an integral number below \<^verbatim>\<open>1e21\<close> in size.\<close>
  "string_of_int i = (if i < 0 then ''-'' @ string_of_nat (nat (- i)) else string_of_nat (nat i))"

section \<open>Time utilities (local-only backend)\<close>

definition calculateDuration :: "int \<Rightarrow> int \<Rightarrow> real" where
  "calculateDuration bedtime wakeTime =
     (let diff = wakeTime - bedtime;
          diff = (if diff < 0 then diff + 24 * 60 * 60 * 1000 else diff)
      in real_of_int (Math_round ((real_of_int diff / (1000 * 60 * 60)) * 10)) / 10)"

definition formatDuration :: "real \<Rightarrow> string" where
  "formatDuration hours =
     (let h = Math_floor hours;
          m = Math_round ((hours - real_of_int h) * 60)
      in if m = 0 then string_of_int h @ ''h''
         else string_of_int h @ ''h '' @ string_of_int m @ ''m'')"

section \<open>Time utilities (remote-synced backend)\<close>

definition calculateDuration_remote :: "int \<Rightarrow> int \<Rightarrow> real" where
  "calculateDuration_remote bedtime wakeTime =
     (let diff = wakeTime - bedtime;
          diff = (if diff < 0 then diff + 24 * 60 * 60 * 1000 else diff)
      in real_of_int (Math_round ((real_of_int diff / (1000 * 60 * 60)) * 10)) / 10)"

definition formatDuration_remote :: "real \<Rightarrow> string" where
  "formatDuration_remote hours =
     (let h = Math_floor hours;
          m = Math_round ((hours - real_of_int h) * 60)
      in if m = 0 then string_of_int h @ ''h''
         else string_of_int h @ ''h '' @ string_of_int m @ ''m'')"

section \<open>Rounding to one decimal place\<close>

text \<open>
  The specification's "rounded to one decimal place", stated without reference to the
  code: \<open>r\<close> is a multiple of one tenth and lies within half a tenth of \<open>x\<close>.
\<close>

definition rounded1 :: "real \<Rightarrow> real \<Rightarrow> bool" where
  "rounded1 r x = (r * 10 \<in> \<int> \<and> \<bar>r - x\<bar> \<le> 1 / 20)"

section \<open>Sleep entries and the state of the storage hook\<close>

text \<open>
  \<^verbatim>\<open>SleepEntry\<close> of \<^verbatim>\<open>types/sleep\<close>.  The fields \<^verbatim>\<open>id\<close> and \<^verbatim>\<open>note\<close> carry a suffix
  because the plain names are taken in Isabelle.  An optional field is an \<open>option\<close>.
\<close>

record SleepEntry =
  id_entry :: string
  bedtime :: int
  wakeTime :: int
  duration :: real
  note_entry :: "string option"
  quality :: "real option"

text \<open>
  The three React state cells of \<^verbatim>\<open>useSleepStorage\<close>.  The local-only hook also owns the item
  kept under \<^verbatim>\<open>STORAGE_KEY\<close> in \<^verbatim>\<open>AsyncStorage\<close>: the serialised entry list, or nothing.
\<close>

record storage_state =
  entries :: "SleepEntry list"
  loading :: bool
  error :: "string option"

record local_state = storage_state +
  stored :: "SleepEntry list option"

text \<open>What an operation of the hook throws (a rejected promise).\<close>

datatype failure = StorageError | NotAuthenticated

text \<open>
  \<^verbatim>\<open>trim\<close> is modelled on the white space of ASCII (space, tab, line feed, vertical tab,
  form feed, carriage return); the no-break space and the other white space of Unicode, which
  \<^verbatim>\<open>String.prototype.trim\<close> also removes, are outside the model.
\<close>

definition isWhiteSpace :: "char \<Rightarrow> bool" where
  "isWhiteSpace c = (c = CHR '' '' \<or> c = CHR 0x09 \<or> c = CHR 0x0A \<or> c = CHR 0x0B
                     \<or> c = CHR 0x0C \<or> c = CHR 0x0D)"

definition trim :: "string \<Rightarrow> string" where
  "trim s = rev (dropWhile isWhiteSpace (rev (dropWhile isWhiteSpace s)))"

definition trimmedNote :: "string option \<Rightarrow> string option" where
  \<comment> \<open>\<^verbatim>\<open>note?.trim() || undefined\<close>\<close>
  "trimmedNote note =
     (case note of None \<Rightarrow> None
      | Some n \<Rightarrow> (if trim n = [] then None else Some (trim n)))"

definition sortByBedtimeDesc :: "SleepEntry list \<Rightarrow> SleepEntry list" where
  \<comment> \<open>\<^verbatim>\<open>xs.sort((a, b) => b.bedtime - a.bedtime)\<close>: \<^verbatim>\<open>Array.prototype.sort\<close> is stable,
      and so is insertion by key.\<close>
  "sortByBedtimeDesc xs = sort_key (\<lambda>e. - bedtime e) xs"

fun findIndex :: "('a \<Rightarrow> bool) \<Rightarrow> 'a list \<Rightarrow> nat option" where
  \<comment> \<open>\<^verbatim>\<open>findIndex\<close>; \<open>None\<close> stands for \<^verbatim>\<open>-1\<close>.\<close>
  "findIndex P [] = None"
| "findIndex P (x # xs) =
     (if P x then Some 0 else (case findIndex P xs of None \<Rightarrow> None | Some i \<Rightarrow> Some (Suc i)))"

section \<open>The local-only storage hook\<close>

text \<open>
  \<^verbatim>\<open>AsyncStorage\<close> is an external collaborator: whether a read or a write succeeds is an
  input of the operation (\<open>read_ok\<close>, \<open>write_ok\<close>).  An operation returns what the promise
  settles to (\<open>Inl\<close> for a rejection) together with the state afterwards.
\<close>

definition loadEntries :: "bool \<Rightarrow> local_state \<Rightarrow> local_state" where
  "loadEntries read_ok s =
     (let s1 = s\<lparr>loading := True, error := None\<rparr> in
      if read_ok then
        (case stored s1 of
           Some parsed \<Rightarrow> s1\<lparr>entries := sortByBedtimeDesc parsed, loading := False\<rparr>
         | None \<Rightarrow> s1\<lparr>entries := [], loading := False\<rparr>)
      else s1\<lparr>error := Some ''Failed to load sleep data'', loading := False\<rparr>)"

definition saveEntries :: "bool \<Rightarrow> SleepEntry list \<Rightarrow> local_state \<Rightarrow> (failure + unit) \<times> local_state" where
  "saveEntries write_ok newEntries s =
     (if write_ok then (Inr (), s\<lparr>entries := newEntries, stored := Some newEntries\<rparr>)
      else (Inl StorageError, s\<lparr>error := Some ''Failed to save sleep data''\<rparr>))"

definition addEntry ::
  "bool \<Rightarrow> string \<Rightarrow> int \<Rightarrow> int \<Rightarrow> string option \<Rightarrow> local_state
     \<Rightarrow> (failure + SleepEntry) \<times> local_state" where
  \<comment> \<open>\<open>newId\<close> is what \<^verbatim>\<open>generateId()\<close> returns (clock and random source).\<close>
  "addEntry write_ok newId bedtime' wakeTime' note s =
     (let duration' = calculateDuration bedtime' wakeTime';
          newEntry = \<lparr>id_entry = newId, bedtime = bedtime', wakeTime = wakeTime',
                      duration = duration', note_entry = trimmedNote note, quality = None\<rparr>;
          updatedEntries = newEntry # entries s
      in case saveEntries write_ok updatedEntries s of
           (Inl e, s') \<Rightarrow> (Inl e, s')
         | (Inr u, s') \<Rightarrow> (Inr newEntry, s'))"

definition updateEntry ::
  "bool \<Rightarrow> string \<Rightarrow> int \<Rightarrow> int \<Rightarrow> string option \<Rightarrow> local_state
     \<Rightarrow> (failure + SleepEntry option) \<times> local_state" where
  "updateEntry write_ok id' bedtime' wakeTime' note s =
     (case findIndex (\<lambda>e. id_entry e = id') (entries s) of
        None \<Rightarrow> (Inr None, s)
      | Some index \<Rightarrow>
          (let duration' = calculateDuration bedtime' wakeTime';
               updatedEntry = \<lparr>id_entry = id', bedtime = bedtime', wakeTime = wakeTime',
                      duration = duration', note_entry = trimmedNote note, quality = None\<rparr>;
               updatedEntries = sortByBedtimeDesc ((entries s)[index := updatedEntry])
           in case saveEntries write_ok updatedEntries s of
                (Inl e, s') \<Rightarrow> (Inl e, s')
              | (Inr u, s') \<Rightarrow> (Inr (Some updatedEntry), s')))"

definition deleteEntry :: "bool \<Rightarrow> string \<Rightarrow> local_state \<Rightarrow> (failure + bool) \<times> local_state" where
  "deleteEntry write_ok id' s =
     (let updatedEntries = filter (\<lambda>e. id_entry e \<noteq> id') (entries s) in
      if length updatedEntries = length (entries s) then (Inr False, s)
      else (case saveEntries write_ok updatedEntries s of
              (Inl e, s') \<Rightarrow> (Inl e, s')
            | (Inr u, s') \<Rightarrow> (Inr True, s')))"

section \<open>The remote-synced storage hook\<close>

text \<open>
  A row of the table \<^verbatim>\<open>sleep_entries\<close>.  \<^verbatim>\<open>toSleepEntry\<close> reads a column \<^verbatim>\<open>quality\<close> that the
  declared interface \<^verbatim>\<open>DbSleepEntry\<close> leaves out; the row has it here.  \<^verbatim>\<open>null\<close> is \<open>None\<close>.
\<close>

record DbSleepEntry =
  db_id :: string
  db_user_id :: string
  db_bedtime :: int
  db_wake_time :: int
  db_duration :: real
  db_note :: "string option"
  db_quality :: "real option"
  db_created_at :: string

record SleepInsert =
  ins_user_id :: string
  ins_bedtime :: int
  ins_wake_time :: int
  ins_duration :: real
  ins_note :: "string option"
  ins_quality :: "real option"

record SleepUpdate =
  upd_bedtime :: int
  upd_wake_time :: int
  upd_duration :: real
  upd_note :: "string option"
  upd_quality :: "real option"

text \<open>The error object of a failed request, with its \<^verbatim>\<open>code\<close>.\<close>

datatype PostgrestError = PostgrestError string

definition truthyString :: "string option \<Rightarrow> string option" where
  \<comment> \<open>\<^verbatim>\<open>x || undefined\<close> on a string: the empty string is falsy.\<close>
  "truthyString x = (case x of None \<Rightarrow> None | Some v \<Rightarrow> (if v = [] then None else Some v))"

definition truthyNumber :: "real option \<Rightarrow> real option" where
  \<comment> \<open>\<^verbatim>\<open>x || null\<close> on a number: zero is falsy.\<close>
  "truthyNumber x = (case x of None \<Rightarrow> None | Some v \<Rightarrow> (if v = 0 then None else Some v))"

definition toSleepEntry :: "DbSleepEntry \<Rightarrow> SleepEntry" where
  "toSleepEntry dbEntry =
     \<lparr>id_entry = db_id dbEntry, bedtime = db_bedtime dbEntry, wakeTime = db_wake_time dbEntry,
      duration = db_duration dbEntry, note_entry = truthyString (db_note dbEntry),
      quality = truthyNumber (db_quality dbEntry)\<rparr>"

text \<open>
  The database is an external collaborator: each request is a function from what the hook
  sends to what the client returns (\<open>Inl\<close> the error, \<open>Inr\<close> the data).  \<open>user\<close> is the id of
  the signed-in user, if any.
\<close>

definition loadEntries_remote ::
  "string option \<Rightarrow> (string \<Rightarrow> PostgrestError + DbSleepEntry list option)
     \<Rightarrow> storage_state \<Rightarrow> storage_state" where
  "loadEntries_remote user db_select s =
     (case user of
        None \<Rightarrow> s
      | Some uid \<Rightarrow>
          (let s1 = s\<lparr>loading := True, error := None\<rparr> in
           case db_select uid of
             Inl fetchError \<Rightarrow> s1\<lparr>error := Some ''Failed to load sleep data'', loading := False\<rparr>
           | Inr data \<Rightarrow>
               s1\<lparr>entries := map toSleepEntry (case data of None \<Rightarrow> [] | Some rows \<Rightarrow> rows),
                  loading := False\<rparr>))"

definition addEntry_remote ::
  "string option \<Rightarrow> (SleepInsert \<Rightarrow> PostgrestError + DbSleepEntry)
     \<Rightarrow> int \<Rightarrow> int \<Rightarrow> string option \<Rightarrow> real option \<Rightarrow> storage_state
     \<Rightarrow> (failure + SleepEntry) \<times> storage_state" where
  "addEntry_remote user db_insert bedtime' wakeTime' note quality' s =
     (case user of
        None \<Rightarrow> (Inl NotAuthenticated, s)
      | Some uid \<Rightarrow>
          (let duration' = calculateDuration_remote bedtime' wakeTime' in
           case db_insert \<lparr>ins_user_id = uid, ins_bedtime = bedtime', ins_wake_time = wakeTime',
                            ins_duration = duration', ins_note = trimmedNote note,
                            ins_quality = truthyNumber quality'\<rparr> of
             Inl insertError \<Rightarrow> (Inl StorageError, s)
           | Inr data \<Rightarrow>
               (let newEntry = toSleepEntry data
                in (Inr newEntry, s\<lparr>entries := newEntry # entries s\<rparr>))))"

definition updateEntry_remote ::
  "string option \<Rightarrow> (string \<Rightarrow> string \<Rightarrow> SleepUpdate \<Rightarrow> PostgrestError + DbSleepEntry option)
     \<Rightarrow> string \<Rightarrow> int \<Rightarrow> int \<Rightarrow> string option \<Rightarrow> real option \<Rightarrow> storage_state
     \<Rightarrow> (failure + SleepEntry option) \<times> storage_state" where
  "updateEntry_remote user db_update id' bedtime' wakeTime' note quality' s =
     (case user of
        None \<Rightarrow> (Inl NotAuthenticated, s)
      | Some uid \<Rightarrow>
          (let duration' = calculateDuration_remote bedtime' wakeTime' in
           case db_update id' uid \<lparr>upd_bedtime = bedtime', upd_wake_time = wakeTime',
                                   upd_duration = duration', upd_note = trimmedNote note,
                                   upd_quality = truthyNumber quality'\<rparr> of
             Inl updateError \<Rightarrow> (Inl StorageError, s)
           | Inr None \<Rightarrow> (Inr None, s)
           | Inr (Some data) \<Rightarrow>
               (let updatedEntry = toSleepEntry data;
                    updated = map (\<lambda>e. if id_entry e = id' then updatedEntry else e) (entries s)
                in (Inr (Some updatedEntry), s\<lparr>entries := sortByBedtimeDesc updated\<rparr>))))"

definition deleteEntry_remote ::
  "string option \<Rightarrow> (string \<Rightarrow> string \<Rightarrow> PostgrestError option) \<Rightarrow> string \<Rightarrow> storage_state
     \<Rightarrow> (failure + bool) \<times> storage_state" where
  "deleteEntry_remote user db_delete id' s =
     (case user of
        None \<Rightarrow> (Inl NotAuthenticated, s)
      | Some uid \<Rightarrow>
          (case db_delete id' uid of
             Some deleteError \<Rightarrow> (Inl StorageError, s)
           | None \<Rightarrow> (Inr True, s\<lparr>entries := filter (\<lambda>e. id_entry e \<noteq> id') (entries s)\<rparr>)))"

section \<open>Local time\<close>

text \<open>
  \<^verbatim>\<open>setDate\<close>, \<open>setHours\<close> and the weekday label work in the local time of the device, which
  follows the rules of its time zone.  A zone is the offset from UTC (in milliseconds) in
  force at first, and the later changes of offset in ascending order, each the UTC instant
  of the change with the offset from then on.  \<open>offsetAt\<close> is the offset in force at a UTC
  instant.  \<open>offsetOfLocal\<close> is the offset the language takes for a local time value: a
  local time that a change repeats or skips is read with the offset before the change.
\<close>

record zone =
  first_offset :: int
  changes :: "(int \<times> int) list"

fun offsetAt :: "int \<Rightarrow> (int \<times> int) list \<Rightarrow> int \<Rightarrow> int" where
  "offsetAt ofs [] t = ofs"
| "offsetAt ofs ((instant, ofs') # later) t = (if t < instant then ofs else offsetAt ofs' later t)"

fun offsetOfLocal :: "int \<Rightarrow> (int \<times> int) list \<Rightarrow> int \<Rightarrow> int" where
  "offsetOfLocal ofs [] lt = ofs"
| "offsetOfLocal ofs ((instant, ofs') # later) lt =
     (if lt < instant + max ofs ofs' then ofs else offsetOfLocal ofs' later lt)"

definition msPerDay :: int where
  "msPerDay = 24 * 60 * 60 * 1000"

definition LocalTime :: "zone \<Rightarrow> int \<Rightarrow> int" where
  "LocalTime z t = t + offsetAt (first_offset z) (changes z) t"

definition UTC :: "zone \<Rightarrow> int \<Rightarrow> int" where
  "UTC z lt = lt - offsetOfLocal (first_offset z) (changes z) lt"

definition Day :: "int \<Rightarrow> int" where
  "Day t = t div msPerDay"

definition TimeWithinDay :: "int \<Rightarrow> int" where
  "TimeWithinDay t = t mod msPerDay"

definition MakeDate :: "int \<Rightarrow> int \<Rightarrow> int" where
  "MakeDate day time = day * msPerDay + time"

definition localDay :: "zone \<Rightarrow> int \<Rightarrow> int" where
  \<comment> \<open>The number of the local calendar day that contains the instant \<open>t\<close>.\<close>
  "localDay z t = Day (LocalTime z t)"

definition daysBefore :: "zone \<Rightarrow> int \<Rightarrow> nat \<Rightarrow> int" where
  \<comment> \<open>\<^verbatim>\<open>date.setDate(date.getDate() - i)\<close>: the local day number goes back by \<open>i\<close>, the
      local time within the day stays, and the result is read back as an instant.\<close>
  "daysBefore z now i =
     UTC z (MakeDate (Day (LocalTime z now) - int i) (TimeWithinDay (LocalTime z now)))"

definition startOfDay :: "zone \<Rightarrow> int \<Rightarrow> int" where
  \<comment> \<open>\<^verbatim>\<open>setHours(0, 0, 0, 0)\<close>\<close>
  "startOfDay z date = UTC z (MakeDate (Day (LocalTime z date)) 0)"

definition endOfDay :: "zone \<Rightarrow> int \<Rightarrow> int" where
  \<comment> \<open>\<^verbatim>\<open>setHours(23, 59, 59, 999)\<close>\<close>
  "endOfDay z date =
     UTC z (MakeDate (Day (LocalTime z date)) (23 * 3600000 + 59 * 60000 + 59 * 1000 + 999))"

definition weekdayShort :: "zone \<Rightarrow> int \<Rightarrow> string" where
  \<comment> \<open>\<^verbatim>\<open>toLocaleDateString('en-US', { weekday: 'short' })\<close>; day 0 of the epoch was a Thursday.\<close>
  "weekdayShort z date =
     [''Sun'', ''Mon'', ''Tue'', ''Wed'', ''Thu'', ''Fri'', ''Sat'']
       ! nat ((Day (LocalTime z date) + 4) mod 7)"

section \<open>Weekly statistics\<close>

text \<open>
  \<open>z\<close> is the time zone of the device and \<open>now\<close> the instant \<^verbatim>\<open>new Date()\<close> returns.
\<close>

record WeeklyStats =
  dailyDurations :: "real list"
  dayLabels :: "string list"
  averageDuration :: real
  totalEntries :: nat

text \<open>
  The loop \<^verbatim>\<open>for (let i = 6; i >= 0; i--)\<close>, by the number of iterations still to run
  (\<open>Suc i\<close> when the loop variable is \<open>i\<close>); the pair holds the two arrays pushed to.
\<close>

fun weekLoop ::
  "zone \<Rightarrow> int \<Rightarrow> SleepEntry list \<Rightarrow> nat \<Rightarrow> string list \<times> real list \<Rightarrow> string list \<times> real list" where
  "weekLoop z now es 0 acc = acc"
| "weekLoop z now es (Suc i) (dayLabels', dailyDurations') =
     (let date = daysBefore z now i;
          dayStart = startOfDay z date;
          dayEnd = endOfDay z date;
          dayEntries = filter (\<lambda>entry. bedtime entry \<ge> dayStart \<and> bedtime entry \<le> dayEnd) es;
          totalDuration = foldl (\<lambda>sum entry. sum + duration entry) 0 dayEntries
      in weekLoop z now es i
           (dayLabels' @ [weekdayShort z date], dailyDurations' @ [totalDuration]))"

definition getWeeklyStats :: "zone \<Rightarrow> int \<Rightarrow> SleepEntry list \<Rightarrow> WeeklyStats" where
  "getWeeklyStats z now es =
     (let (dayLabels', dailyDurations') = weekLoop z now es 7 ([], []);
          daysWithData = filter (\<lambda>d. d > 0) dailyDurations';
          averageDuration' =
            (if length daysWithData > 0
             then foldl (\<lambda>a b. a + b) 0 daysWithData / real (length daysWithData)
             else 0)
      in \<lparr>dailyDurations = dailyDurations', dayLabels = dayLabels',
          averageDuration = real_of_int (Math_round (averageDuration' * 10)) / 10,
          totalEntries = length es\<rparr>)"

fun weekLoop_remote ::
  "zone \<Rightarrow> int \<Rightarrow> SleepEntry list \<Rightarrow> nat \<Rightarrow> string list \<times> real list \<Rightarrow> string list \<times> real list" where
  "weekLoop_remote z now es 0 acc = acc"
| "weekLoop_remote z now es (Suc i) (dayLabels', dailyDurations') =
     (let date = daysBefore z now i;
          dayStart = startOfDay z date;
          dayEnd = endOfDay z date;
          dayEntries = filter (\<lambda>entry. bedtime entry \<ge> dayStart \<and> bedtime entry \<le> dayEnd) es;
          totalDuration = foldl (\<lambda>sum entry. sum + duration entry) 0 dayEntries
      in weekLoop_remote z now es i
           (dayLabels' @ [weekdayShort z date], dailyDurations' @ [totalDuration]))"

definition getWeeklyStats_remote :: "zone \<Rightarrow> int \<Rightarrow> SleepEntry list \<Rightarrow> WeeklyStats" where
  "getWeeklyStats_remote z now es =
     (let (dayLabels', dailyDurations') = weekLoop_remote z now es 7 ([], []);
          daysWithData = filter (\<lambda>d. d > 0) dailyDurations';
          averageDuration' =
            (if length daysWithData > 0
             then foldl (\<lambda>a b. a + b) 0 daysWithData / real (length daysWithData)
             else 0)
      in \<lparr>dailyDurations = dailyDurations', dayLabels = dayLabels',
          averageDuration = real_of_int (Math_round (averageDuration' * 10)) / 10,
          totalEntries = length es\<rparr>)"

section \<open>The notification service\<close>

text \<open>
  The notification service is the collaborator of the settings hook; its interface is the
  pair \<open>scheduleBedtimeReminder\<close>, \<open>cancelBedtimeReminder\<close>.  Behind it stands the operating
  system's notification interface.  The model keeps two logs: the calls the hook makes at
  the interface of the service (\<open>service_call\<close>), and the requests the service sends to the
  operating system, each with its outcome (\<open>os_request\<close>).  \<open>cancel_ok\<close> tells whether
  \<^verbatim>\<open>cancelAllScheduledNotificationsAsync\<close> succeeds; \<open>schedule_id\<close> is the identifier
  \<^verbatim>\<open>scheduleNotificationAsync\<close> returns, or \<open>None\<close> when it throws.  The request to schedule is
  logged with the two arguments its trigger and message are computed from.
\<close>

datatype service_call =
    ScheduleBedtimeReminder string real
  | CancelBedtimeReminder

datatype os_request =
    CancelAllScheduledNotifications bool
  | ScheduleNotification string real "string option"

record notifications_env =
  cancel_ok :: bool
  schedule_id :: "string option"

definition cancelBedtimeReminder :: "notifications_env \<Rightarrow> os_request list \<Rightarrow> os_request list" where
  \<comment> \<open>The \<^verbatim>\<open>catch\<close> block only writes to the console: the function returns either way.\<close>
  "cancelBedtimeReminder env requests =
     requests @ [CancelAllScheduledNotifications (cancel_ok env)]"

definition scheduleBedtimeReminder ::
  "notifications_env \<Rightarrow> string \<Rightarrow> real \<Rightarrow> os_request list \<Rightarrow> string option \<times> os_request list" where
  \<comment> \<open>Cancels any existing reminders first; a request that throws is caught and gives \<^verbatim>\<open>null\<close>.\<close>
  "scheduleBedtimeReminder env reminderTime' targetHours' requests =
     (let requests1 = cancelBedtimeReminder env requests;
          identifier = schedule_id env
      in (identifier, requests1 @ [ScheduleNotification reminderTime' targetHours' identifier]))"

section \<open>The settings hook\<close>

record UserSettings =
  id_settings :: string
  userId :: string
  targetHours :: real
  reminderEnabled :: bool
  reminderTime :: string
  onboardingCompleted :: bool
  createdAt :: string
  updatedAt :: string

record DbUserSettings =
  dbs_id :: string
  user_id :: string
  target_hours :: real
  reminder_enabled :: bool
  reminder_time :: string
  onboarding_completed :: bool
  created_at :: string
  updated_at :: string

text \<open>\<^verbatim>\<open>UpdateSettingsInput\<close>: every field optional.\<close>

record UpdateSettingsInput =
  in_targetHours :: "real option"
  in_reminderEnabled :: "bool option"
  in_reminderTime :: "string option"
  in_onboardingCompleted :: "bool option"

text \<open>The object inserted by \<^verbatim>\<open>createDefaultSettings\<close>, and \<^verbatim>\<open>Partial<DbUserSettings>\<close> as
  \<^verbatim>\<open>updateSettings\<close> fills it.\<close>

record SettingsInsert =
  si_user_id :: string
  si_target_hours :: real
  si_reminder_enabled :: bool
  si_reminder_time :: string
  si_onboarding_completed :: bool

record SettingsUpdate =
  su_target_hours :: "real option"
  su_reminder_enabled :: "bool option"
  su_reminder_time :: "string option"
  su_onboarding_completed :: "bool option"
  su_updated_at :: "string option"

record SettingsDefaults =
  default_targetHours :: real
  default_reminderEnabled :: bool
  default_reminderTime :: string
  default_onboardingCompleted :: bool

definition DEFAULT_SETTINGS :: SettingsDefaults where
  "DEFAULT_SETTINGS =
     \<lparr>default_targetHours = 8.0, default_reminderEnabled = False,
      default_reminderTime = ''22:00'', default_onboardingCompleted = False\<rparr>"

text \<open>The state cells of \<^verbatim>\<open>useUserSettings\<close>, and the two logs.\<close>

record settings_state =
  settings :: "UserSettings option"
  loading_s :: bool
  error_s :: "string option"
  service_calls :: "service_call list"
  os_requests :: "os_request list"

fun error_code :: "PostgrestError \<Rightarrow> string" where
  "error_code (PostgrestError c) = c"

definition toUserSettings :: "DbUserSettings \<Rightarrow> UserSettings" where
  "toUserSettings db =
     \<lparr>id_settings = dbs_id db, userId = user_id db, targetHours = target_hours db,
      reminderEnabled = reminder_enabled db, reminderTime = reminder_time db,
      onboardingCompleted = onboarding_completed db, createdAt = created_at db,
      updatedAt = updated_at db\<rparr>"

definition createDefaultSettings ::
  "string option \<Rightarrow> (SettingsInsert \<Rightarrow> PostgrestError + DbUserSettings) \<Rightarrow> UserSettings option" where
  "createDefaultSettings user db_insert =
     (case user of
        None \<Rightarrow> None
      | Some uid \<Rightarrow>
          (case db_insert \<lparr>si_user_id = uid,
                  si_target_hours = default_targetHours DEFAULT_SETTINGS,
                  si_reminder_enabled = default_reminderEnabled DEFAULT_SETTINGS,
                  si_reminder_time = default_reminderTime DEFAULT_SETTINGS,
                  si_onboarding_completed = default_onboardingCompleted DEFAULT_SETTINGS\<rparr> of
             Inl insertError \<Rightarrow> None
           | Inr data \<Rightarrow> Some (toUserSettings data)))"

definition fetchSettings ::
  "string option \<Rightarrow> (string \<Rightarrow> PostgrestError + DbUserSettings)
     \<Rightarrow> (SettingsInsert \<Rightarrow> PostgrestError + DbUserSettings) \<Rightarrow> settings_state \<Rightarrow> settings_state" where
  "fetchSettings user db_select db_insert s =
     (case user of
        None \<Rightarrow> s\<lparr>settings := None, loading_s := False\<rparr>
      | Some uid \<Rightarrow>
          (let s1 = s\<lparr>loading_s := True, error_s := None\<rparr> in
           case db_select uid of
             Inl fetchError \<Rightarrow>
               (if error_code fetchError = ''PGRST116''
                then s1\<lparr>settings := createDefaultSettings user db_insert, loading_s := False\<rparr>
                else s1\<lparr>error_s := Some ''Failed to load settings'', loading_s := False\<rparr>)
           | Inr data \<Rightarrow> s1\<lparr>settings := Some (toUserSettings data), loading_s := False\<rparr>))"

definition updateSettings ::
  "string option \<Rightarrow> (string \<Rightarrow> SettingsUpdate \<Rightarrow> PostgrestError + DbUserSettings) \<Rightarrow> string
     \<Rightarrow> notifications_env \<Rightarrow> UpdateSettingsInput \<Rightarrow> settings_state \<Rightarrow> bool \<times> settings_state" where
  \<comment> \<open>\<open>nowIso\<close> is \<^verbatim>\<open>new Date().toISOString()\<close>.\<close>
  "updateSettings user db_update nowIso env updates s =
     (case user of
        None \<Rightarrow> (False, s)
      | Some uid \<Rightarrow>
          (if settings s = None then (False, s)
           else
             (let dbUpdates = \<lparr>su_target_hours = in_targetHours updates,
                               su_reminder_enabled = in_reminderEnabled updates,
                               su_reminder_time = in_reminderTime updates,
                               su_onboarding_completed = in_onboardingCompleted updates,
                               su_updated_at = Some nowIso\<rparr>
              in case db_update uid dbUpdates of
                   Inl updateError \<Rightarrow> (False, s\<lparr>error_s := Some ''Failed to update settings''\<rparr>)
                 | Inr data \<Rightarrow>
                     (let updatedSettings = toUserSettings data;
                          s1 = s\<lparr>settings := Some updatedSettings\<rparr>
                      in if reminderEnabled updatedSettings
                         then (True, s1\<lparr>service_calls := service_calls s1 @
                                   [ScheduleBedtimeReminder (reminderTime updatedSettings)
                                      (targetHours updatedSettings)],
                                 os_requests :=
                                   snd (scheduleBedtimeReminder env (reminderTime updatedSettings)
                                          (targetHours updatedSettings) (os_requests s1))\<rparr>)
                         else (True, s1\<lparr>service_calls := service_calls s1 @ [CancelBedtimeReminder],
                                 os_requests := cancelBedtimeReminder env (os_requests s1)\<rparr>)))))"

definition completeOnboarding ::
  "string option \<Rightarrow> (string \<Rightarrow> SettingsUpdate \<Rightarrow> PostgrestError + DbUserSettings) \<Rightarrow> string
     \<Rightarrow> notifications_env \<Rightarrow> real \<Rightarrow> bool \<Rightarrow> string \<Rightarrow> settings_state \<Rightarrow> bool \<times> settings_state" where
  "completeOnboarding user db_update nowIso env targetHours' reminderEnabled' reminderTime' s =
     updateSettings user db_update nowIso env
       \<lparr>in_targetHours = Some targetHours', in_reminderEnabled = Some reminderEnabled',
        in_reminderTime = Some reminderTime', in_onboardingCompleted = Some True\<rparr> s"

section \<open>Notions of the specification\<close>

text \<open>
  The snapshot is in descending order of bedtime, most recent first; entries with the same
  bedtime may follow each other.  The second predicate is the strict reading.
\<close>

definition sortedDesc :: "SleepEntry list \<Rightarrow> bool" where
  "sortedDesc es = sorted_wrt (\<lambda>a b. bedtime a \<ge> bedtime b) es"

definition strictlySortedDesc :: "SleepEntry list \<Rightarrow> bool" where
  "strictlySortedDesc es = sorted_wrt (\<lambda>a b. bedtime a > bedtime b) es"

text \<open>The sum of the durations of the entries whose bedtime falls in local calendar day \<open>d\<close>.\<close>

definition dayTotal :: "zone \<Rightarrow> SleepEntry list \<Rightarrow> int \<Rightarrow> real" where
  "dayTotal z es d = sum_list (map duration (filter (\<lambda>e. localDay z (bedtime e) = d) es))"

text \<open>The total that the loop pushes in the iteration with loop variable \<open>i\<close>.\<close>

definition bucketTotal :: "zone \<Rightarrow> int \<Rightarrow> SleepEntry list \<Rightarrow> nat \<Rightarrow> real" where
  "bucketTotal z now es i =
     sum_list (map duration
       (filter (\<lambda>e. startOfDay z (daysBefore z now i) \<le> bedtime e
                     \<and> bedtime e \<le> endOfDay z (daysBefore z now i)) es))"

text \<open>
  A zone without changes of offset.  A local day \<open>d\<close> is regular when it begins at the
  instant taken for its 00:00:00.000 and ends at the instant taken for its 23:59:59.999:
  both instants lie in the day, the millisecond before the first lies in an earlier day and
  the millisecond after the last in a later one.  The window of \<open>now\<close> is regular when the
  seven dates the loop visits lie on the seven days up to today and each of these is
  regular.
\<close>

definition fixedZone :: "int \<Rightarrow> zone" where
  "fixedZone tz = \<lparr>first_offset = tz, changes = []\<rparr>"

definition regularDay :: "zone \<Rightarrow> int \<Rightarrow> bool" where
  "regularDay z d =
     (localDay z (UTC z (MakeDate d 0)) = d
      \<and> localDay z (UTC z (MakeDate d 0) - 1) < d
      \<and> localDay z (UTC z (MakeDate d 86399999)) = d
      \<and> d < localDay z (UTC z (MakeDate d 86399999) + 1))"

definition regularWindow :: "zone \<Rightarrow> int \<Rightarrow> bool" where
  "regularWindow z now =
     list_all (\<lambda>i. localDay z (daysBefore z now i) = localDay z now - int i
                  \<and> regularDay z (localDay z now - int i)) [0..<7]"

text \<open>The average over the days whose total is not zero, as the specification words it, and
  over the days whose total is positive.\<close>

definition averageOfNonzero :: "real list \<Rightarrow> real" where
  "averageOfNonzero ds =
     (let nz = filter (\<lambda>d. d \<noteq> 0) ds
      in if nz = [] then 0 else sum_list nz / real (length nz))"

definition averageOfPositive :: "real list \<Rightarrow> real" where
  "averageOfPositive ds =
     (let pos = filter (\<lambda>d. 0 < d) ds
      in if pos = [] then 0 else sum_list pos / real (length pos))"

text \<open>
  The persistence interface of the specification, \<^verbatim>\<open>insert(record) -> record\<close>: the row a
  store returns for an inserted settings object carries the object's columns, a generated
  id and the time of insertion.
\<close>

definition insertedRow :: "SettingsInsert \<Rightarrow> string \<Rightarrow> string \<Rightarrow> DbUserSettings" where
  "insertedRow p newId ts =
     \<lparr>dbs_id = newId, user_id = si_user_id p, target_hours = si_target_hours p,
      reminder_enabled = si_reminder_enabled p, reminder_time = si_reminder_time p,
      onboarding_completed = si_onboarding_completed p, created_at = ts, updated_at = ts\<rparr>"

text \<open>
  Likewise \<^verbatim>\<open>replace(id, record) -> record\<close>: the row a store returns for an update carries
  the supplied columns and keeps the others.
\<close>

definition updatedRow :: "DbUserSettings \<Rightarrow> SettingsUpdate \<Rightarrow> DbUserSettings" where
  "updatedRow row u =
     row\<lparr>target_hours := (case su_target_hours u of None \<Rightarrow> target_hours row | Some v \<Rightarrow> v),
         reminder_enabled :=
           (case su_reminder_enabled u of None \<Rightarrow> reminder_enabled row | Some v \<Rightarrow> v),
         reminder_time := (case su_reminder_time u of None \<Rightarrow> reminder_time row | Some v \<Rightarrow> v),
         onboarding_completed :=
           (case su_onboarding_completed u of None \<Rightarrow> onboarding_completed row | Some v \<Rightarrow> v),
         updated_at := (case su_updated_at u of None \<Rightarrow> updated_at row | Some v \<Rightarrow> v)\<rparr>"

text \<open>
  Two zones of the tz database, each around one change of offset.  America/New_York in the
  autumn of 2024: UTC-4 until 2024-11-03T06:00Z (02:00 local time), UTC-5 from then on.
  America/Santiago in the autumn of 2024: UTC-3 until 2024-04-07T03:00Z (24:00 local time
  on Saturday 6 April), UTC-4 from then on, so that the local hour from 23:00 to 24:00 of
  that Saturday happens twice.
\<close>

definition newYork2024 :: zone where
  "newYork2024 = \<lparr>first_offset = - 14400000, changes = [(1730613600000, - 18000000)]\<rparr>"

definition santiago2024 :: zone where
  "santiago2024 = \<lparr>first_offset = - 10800000, changes = [(1712458800000, - 14400000)]\<rparr>"

section \<open>Rounding and printing\<close>

lemma rounded1_Math_round: "rounded1 (real_of_int (Math_round (x * 10)) / 10) x"
proof -
  define k where "k = \<lfloor>x * 10 + 1 / 2\<rfloor>"
  have lo: "real_of_int k \<le> x * 10 + 1 / 2"
    unfolding k_def by (rule of_int_floor_le)
  have hi: "x * 10 + 1 / 2 < real_of_int k + 1"
    unfolding k_def by linarith
  have "\<bar>real_of_int k / 10 - x\<bar> \<le> 1 / 20"
    using lo hi by linarith
  moreover have "real_of_int k / 10 * 10 \<in> \<int>"
    by simp
  ultimately show ?thesis
    by (simp add: rounded1_def Math_round_def k_def)
qed

lemma string_of_int_60: "string_of_int 60 = ''60''"
  by (simp add: string_of_int_def digit_char_def)

section \<open>Duration of a night\<close>

text \<open>
  Claim C1 (as amended).  For every pair of instants, \<open>calculateDuration\<close> returns the
  difference of wake time and bedtime in hours rounded to one decimal place when the wake time
  is not before the bedtime, and that difference plus 24 hours, rounded to one decimal
  place, when it is before; equal instants give 0, not 24.  The result is non-negative
  exactly when the wake time is at most 24 hours and 3 minutes (86580000 ms) before the
  bedtime: only one day is ever added, so an earlier wake time gives a negative duration.
\<close>

theorem calculateDuration_rounded_wrap:
  "(bed \<le> wake \<longrightarrow>
      rounded1 (calculateDuration bed wake) (real_of_int (wake - bed) / 3600000))
   \<and> (wake < bed \<longrightarrow>
      rounded1 (calculateDuration bed wake)
        (real_of_int (wake - bed) / 3600000 + 24))
   \<and> (0 \<le> calculateDuration bed wake \<longleftrightarrow> bed - wake \<le> 86580000)
   \<and> calculateDuration t t = 0"
proof (intro conjI impI)
  assume le: "bed \<le> wake"
  have a: "calculateDuration bed wake =
      real_of_int (Math_round ((real_of_int (wake - bed) / (1000 * 60 * 60)) * 10)) / 10"
  proof -
    have "\<not> wake - bed < 0" using le by simp
    then show ?thesis unfolding calculateDuration_def Let_def by (simp only: if_False)
  qed
  have b: "real_of_int (wake - bed) / (1000 * 60 * 60)
      = real_of_int (wake - bed) / 3600000"
    by simp
  show "rounded1 (calculateDuration bed wake)
      (real_of_int (wake - bed) / 3600000)"
    unfolding a b by (rule rounded1_Math_round)
next
  assume less: "wake < bed"
  have a: "calculateDuration bed wake =
      real_of_int (Math_round ((real_of_int (wake - bed + 24 * 60 * 60 * 1000)
        / (1000 * 60 * 60)) * 10)) / 10"
  proof -
    have "wake - bed < 0" using less by simp
    then show ?thesis unfolding calculateDuration_def Let_def by (simp only: if_True)
  qed
  have b: "real_of_int (wake - bed + 24 * 60 * 60 * 1000) / (1000 * 60 * 60)
      = real_of_int (wake - bed) / 3600000 + 24"
    by simp
  show "rounded1 (calculateDuration bed wake)
      (real_of_int (wake - bed) / 3600000 + 24)"
    unfolding a b by (rule rounded1_Math_round)
next
  show "(0 \<le> calculateDuration bed wake) = (bed - wake \<le> 86580000)"
  proof (cases "wake - bed < 0")
    case True
    have "(0 \<le> \<lfloor>real_of_int (wake - bed + 86400000) / 360000 + 1 / 2\<rfloor>)
        = (bed - wake \<le> 86580000)"
      by (simp add: field_simps) linarith
    with True show ?thesis
      by (simp add: calculateDuration_def Let_def Math_round_def zero_le_divide_iff)
  next
    case False
    then have "0 \<le> \<lfloor>real_of_int (wake - bed) / 360000 + 1 / 2\<rfloor>"
      by simp
    with False show ?thesis
      by (simp add: calculateDuration_def Let_def Math_round_def zero_le_divide_iff)
  qed
next
  show "calculateDuration t t = 0"
    by (simp add: calculateDuration_def Math_round_def)
qed

text \<open>
  The theorem at two nights: to bed at 22:00 and up at 07:00 of the same calendar day (the
  wake time is before the bedtime: 9 hours), and to bed at 01:00 and up at 08:30 (7.5 hours).
\<close>

theorem calculateDuration_rounded_wrap_witness:
  "(25200000 :: int) < 79200000
   \<and> rounded1 (calculateDuration 79200000 25200000) (real_of_int (25200000 - 79200000) / 3600000 + 24)
   \<and> calculateDuration 79200000 25200000 = 9
   \<and> (3600000 :: int) \<le> 30600000
   \<and> rounded1 (calculateDuration 3600000 30600000) (real_of_int (30600000 - 3600000) / 3600000)
   \<and> calculateDuration 3600000 30600000 = 15 / 2
   \<and> 0 \<le> calculateDuration 79200000 25200000"
  using calculateDuration_rounded_wrap [of 79200000 25200000 0]
    calculateDuration_rounded_wrap [of 3600000 30600000 0]
  by (simp add: calculateDuration_def Math_round_def)

text \<open>
  The claim as stated fails: a wake time two days before the bedtime gives -24 hours.
\<close>

theorem calculateDuration_negative_counterexample:
  "calculateDuration 172800000 0 = - 24 \<and> calculateDuration 172800000 0 < 0"
  by (simp add: calculateDuration_def Math_round_def)

section \<open>Formatting a duration\<close>

text \<open>
  Claim C10.  The minutes that \<open>formatDuration\<close> prints are not always below 60: for every
  non-negative number of hours whose fractional part is at least 59.5/60 (= 119/120), the
  rounded minutes are 60 and the result is the hour part followed by \<^verbatim>\<open>h 60m\<close>; nothing
  is carried into the hours.
\<close>

theorem formatDuration_sixty_minutes:
  assumes "0 \<le> hours" and "119 / 120 \<le> hours - real_of_int \<lfloor>hours\<rfloor>"
  shows "formatDuration hours = string_of_int \<lfloor>hours\<rfloor> @ ''h 60m''"
proof -
  have "hours - real_of_int \<lfloor>hours\<rfloor> < 1" by linarith
  with assms(2) have "\<lfloor>(hours - real_of_int \<lfloor>hours\<rfloor>) * 60 + 1 / 2\<rfloor> = 60"
    by (intro floor_unique) simp_all
  then show ?thesis
    by (simp add: formatDuration_def Math_floor_def Math_round_def Let_def string_of_int_60)
qed

text \<open>The example of the claim: 7.995 hours are printed as \<^verbatim>\<open>7h 60m\<close>.\<close>

theorem formatDuration_sixty_minutes_witness:
  "(0 :: real) \<le> 7995 / 1000
   \<and> (119 :: real) / 120 \<le> 7995 / 1000 - real_of_int \<lfloor>7995 / 1000 :: real\<rfloor>
   \<and> formatDuration (7995 / 1000) = ''7h 60m''"
  using formatDuration_sixty_minutes [of "7995 / 1000"]
  by (simp add: string_of_int_def digit_char_def)

section \<open>Weekly statistics: the seven buckets\<close>

text \<open>
  The loop, read as a whole: bucket \<open>i\<close> (counted back from today) holds the total of the
  entries whose bedtime lies between the start and the end of the date \<open>i\<close> days back.
\<close>

lemmas day_defs = Day_def TimeWithinDay_def MakeDate_def msPerDay_def

lemma foldl_duration: "foldl (\<lambda>sum entry. sum + duration entry) a xs = a + sum_list (map duration xs)"
  by (induction xs arbitrary: a) simp_all

lemma foldl_plus: "foldl (\<lambda>a b. a + b) (a :: real) xs = a + sum_list xs"
  by (induction xs arbitrary: a) simp_all

lemma weekLoop_step:
  "weekLoop z now es (Suc i) (ls, ds) =
     weekLoop z now es i (ls @ [weekdayShort z (daysBefore z now i)], ds @ [bucketTotal z now es i])"
  by (simp add: Let_def foldl_duration bucketTotal_def conj_commute)

lemma weekLoop_eq:
  "weekLoop z now es n (ls, ds) =
     (ls @ map (\<lambda>i. weekdayShort z (daysBefore z now i)) (rev [0..<n]),
      ds @ map (bucketTotal z now es) (rev [0..<n]))"
proof (induction n arbitrary: ls ds)
  case 0
  then show ?case by simp
next
  case (Suc n)
  show ?case
    unfolding weekLoop_step Suc.IH by simp
qed

lemma rev_upt_7: "rev [0..<7] = [6, 5, 4, 3, 2, 1, 0 :: nat]"
  by (simp add: upt_rec)

lemma dailyDurations_getWeeklyStats:
  "dailyDurations (getWeeklyStats z now es) = map (\<lambda>k. bucketTotal z now es (6 - k)) [0..<7]"
  by (simp add: getWeeklyStats_def weekLoop_eq rev_upt_7 upt_rec eval_nat_numeral)

lemma dayLabels_getWeeklyStats:
  "dayLabels (getWeeklyStats z now es) =
     map (\<lambda>k. weekdayShort z (daysBefore z now (6 - k))) [0..<7]"
  by (simp add: getWeeklyStats_def weekLoop_eq rev_upt_7 upt_rec eval_nat_numeral)

lemma averageDuration_getWeeklyStats:
  "averageDuration (getWeeklyStats z now es) =
     real_of_int (Math_round (averageOfPositive (dailyDurations (getWeeklyStats z now es)) * 10)) / 10"
  by (simp add: getWeeklyStats_def weekLoop_eq averageOfPositive_def Let_def foldl_plus)

lemma in_regular_day:
  assumes m: "mono (localDay z)" and r: "regularDay z (localDay z date)"
  shows "(startOfDay z date \<le> b \<and> b \<le> endOfDay z date) \<longleftrightarrow> localDay z b = localDay z date"
proof -
  define d where "d = localDay z date"
  define lo where "lo = UTC z (MakeDate d 0)"
  define hi where "hi = UTC z (MakeDate d 86399999)"
  have s: "startOfDay z date = lo" and e: "endOfDay z date = hi"
    by (simp_all add: startOfDay_def endOfDay_def lo_def hi_def d_def localDay_def)
  from r have r1: "localDay z lo = d" and r2: "localDay z (lo - 1) < d"
    and r3: "localDay z hi = d" and r4: "d < localDay z (hi + 1)"
    by (simp_all add: regularDay_def d_def lo_def hi_def)
  show ?thesis
  proof
    assume "startOfDay z date \<le> b \<and> b \<le> endOfDay z date"
    then have "lo \<le> b" and "b \<le> hi" by (simp_all add: s e)
    then have "localDay z lo \<le> localDay z b" and "localDay z b \<le> localDay z hi"
      by (simp_all add: monoD [OF m])
    then show "localDay z b = localDay z date"
      using r1 r3 by (simp add: d_def)
  next
    assume eq: "localDay z b = localDay z date"
    have "lo \<le> b"
    proof (rule ccontr)
      assume "\<not> lo \<le> b"
      then have "b \<le> lo - 1" by simp
      then have "localDay z b \<le> localDay z (lo - 1)" by (rule monoD [OF m])
      with r2 eq show False by (simp add: d_def)
    qed
    moreover have "b \<le> hi"
    proof (rule ccontr)
      assume "\<not> b \<le> hi"
      then have "hi + 1 \<le> b" by simp
      then have "localDay z (hi + 1) \<le> localDay z b" by (rule monoD [OF m])
      with r4 eq show False by (simp add: d_def)
    qed
    ultimately show "startOfDay z date \<le> b \<and> b \<le> endOfDay z date"
      by (simp add: s e)
  qed
qed

lemma bucketTotal_regular:
  assumes m: "mono (localDay z)" and w: "regularWindow z now" and i: "i < 7"
  shows "bucketTotal z now es i = dayTotal z es (localDay z now - int i)"
proof -
  from w i have bk: "localDay z (daysBefore z now i) = localDay z now - int i"
    and reg: "regularDay z (localDay z now - int i)"
    by (simp_all add: regularWindow_def list_all_iff)
  have rd: "regularDay z (localDay z (daysBefore z now i))"
    using reg bk by simp
  have "(startOfDay z (daysBefore z now i) \<le> b \<and> b \<le> endOfDay z (daysBefore z now i))
      = (localDay z b = localDay z now - int i)" for b
    using in_regular_day [OF m rd, of b] bk by simp
  then show ?thesis
    by (simp add: bucketTotal_def dayTotal_def)
qed

lemma LocalTime_fixedZone: "LocalTime (fixedZone tz) t = t + tz"
  by (simp add: LocalTime_def fixedZone_def)

lemma localDay_fixedZone: "localDay (fixedZone tz) t = (t + tz) div 86400000"
  by (simp add: localDay_def LocalTime_fixedZone Day_def msPerDay_def)

lemma UTC_fixedZone: "UTC (fixedZone tz) lt = lt - tz"
  by (simp add: UTC_def fixedZone_def)

lemma mono_localDay_fixedZone: "mono (localDay (fixedZone tz))"
proof (rule monoI)
  fix s t :: int
  assume "s \<le> t"
  then have "(s + tz) div 86400000 \<le> (t + tz) div 86400000"
    by (intro zdiv_mono1) simp_all
  then show "localDay (fixedZone tz) s \<le> localDay (fixedZone tz) t"
    by (simp only: localDay_fixedZone)
qed

lemma daysBefore_fixedZone: "daysBefore (fixedZone tz) now i = now - int i * 86400000"
proof -
  have "(now + tz) div 86400000 * 86400000 + (now + tz) mod 86400000 = now + tz"
    by simp
  then show ?thesis
    by (simp add: daysBefore_def UTC_fixedZone MakeDate_def Day_def TimeWithinDay_def
        LocalTime_fixedZone msPerDay_def algebra_simps)
qed

lemma div_day_parts:
  "(d * 86400000) div 86400000 = (d :: int)"
  "(d * 86400000 - 1) div 86400000 = d - 1"
  "(d * 86400000 + 86399999) div 86400000 = d"
  "(d * 86400000 + 86399999 + 1) div 86400000 = d + 1"
proof -
  show "(d * 86400000) div 86400000 = d" by simp
  have "(d * 86400000 - 1) = (d - 1) * 86400000 + 86399999" by (simp add: algebra_simps)
  then show "(d * 86400000 - 1) div 86400000 = d - 1" by simp
  show "(d * 86400000 + 86399999) div 86400000 = d" by simp
  have "d * 86400000 + 86399999 + 1 = (d + 1) * 86400000" by (simp add: algebra_simps)
  then show "(d * 86400000 + 86399999 + 1) div 86400000 = d + 1" by simp
qed

lemma regularDay_fixedZone: "regularDay (fixedZone tz) d"
  by (simp add: regularDay_def localDay_fixedZone UTC_fixedZone MakeDate_def msPerDay_def
      div_day_parts)

lemma regularWindow_fixedZone: "regularWindow (fixedZone tz) now"
proof -
  have "localDay (fixedZone tz) (daysBefore (fixedZone tz) now i)
      = localDay (fixedZone tz) now - int i" for i
  proof -
    have "(now + tz + (- int i) * 86400000) div 86400000 = (now + tz) div 86400000 + (- int i)"
      by simp
    then show ?thesis
      by (simp add: localDay_fixedZone daysBefore_fixedZone algebra_simps)
  qed
  then show ?thesis
    by (simp add: regularWindow_def list_all_iff regularDay_fixedZone)
qed

text \<open>
  Where the local calendar day never decreases over time and the window is regular, bucket
  \<open>k\<close> is the total of local calendar day \<open>today - 6 + k\<close>, oldest first and today last.
  Every zone without a change of offset is such a zone.
\<close>

lemma dailyDurations_regular:
  assumes "mono (localDay z)" and "regularWindow z now"
  shows "dailyDurations (getWeeklyStats z now es) =
     map (\<lambda>k. dayTotal z es (localDay z now - 6 + int k)) [0..<7]"
proof -
  have "bucketTotal z now es (6 - k) = dayTotal z es (localDay z now - 6 + int k)"
    if "k < 7" for k
  proof -
    have a: "bucketTotal z now es (6 - k) = dayTotal z es (localDay z now - int (6 - k))"
      using assms by (intro bucketTotal_regular) simp_all
    have b: "localDay z now - int (6 - k) = localDay z now - 6 + int k"
      using that by simp
    show ?thesis unfolding a b by (rule refl)
  qed
  then show ?thesis
    unfolding dailyDurations_getWeeklyStats by simp
qed

lemma getWeeklyStats_buckets_regular:
  assumes "mono (localDay z)" and "regularWindow z now"
  shows "length (dailyDurations (getWeeklyStats z now es)) = 7
   \<and> length (dayLabels (getWeeklyStats z now es)) = 7
   \<and> (\<forall>k<7. dailyDurations (getWeeklyStats z now es) ! k
               = dayTotal z es (localDay z now - 6 + int k))"
  unfolding dailyDurations_regular [OF assms] dayLabels_getWeeklyStats
  by (simp del: upt_Suc)

lemma getWeeklyStats_empty:
  "getWeeklyStats z now [] =
     \<lparr>dailyDurations = [0, 0, 0, 0, 0, 0, 0],
      dayLabels = map (\<lambda>k. weekdayShort z (daysBefore z now (6 - k))) [0..<7],
      averageDuration = 0, totalEntries = 0\<rparr>"
proof -
  have ds: "dailyDurations (getWeeklyStats z now []) = [0, 0, 0, 0, 0, 0, 0]"
    by (simp add: dailyDurations_getWeeklyStats bucketTotal_def upt_rec)
  have "averageDuration (getWeeklyStats z now []) = 0"
    unfolding averageDuration_getWeeklyStats ds
    by (simp add: averageOfPositive_def Math_round_def)
  moreover have "totalEntries (getWeeklyStats z now []) = 0"
    by (simp add: getWeeklyStats_def weekLoop_eq Let_def)
  ultimately show ?thesis
    using ds dayLabels_getWeeklyStats [of z now "[]"]
    by (intro WeeklyStats.equality) simp_all
qed

lemma dailyDurations_fixedZone:
  "dailyDurations (getWeeklyStats (fixedZone tz) now es) =
     map (\<lambda>k. dayTotal (fixedZone tz) es ((now + tz) div 86400000 - 6 + int k)) [0..<7]"
  using dailyDurations_regular [OF mono_localDay_fixedZone regularWindow_fixedZone]
  by (simp add: localDay_fixedZone)

text \<open>
  A week with a change of offset: New York on Sunday 3 November 2024 at noon, after the
  clocks went back at 02:00.  The days of the window are regular, and an entry with its
  bedtime on Monday 28 October at 00:30 local time is counted in the oldest bucket.
\<close>

lemma LocalTime_newYork2024:
  "LocalTime newYork2024 t = (if t < 1730613600000 then t - 14400000 else t - 18000000)"
  by (simp add: LocalTime_def newYork2024_def)

lemma UTC_newYork2024:
  "UTC newYork2024 lt = (if lt < 1730599200000 then lt + 14400000 else lt + 18000000)"
  by (simp add: UTC_def newYork2024_def)

lemma mono_localDay_newYork2024: "mono (localDay newYork2024)"
proof (rule monoI)
  fix s t :: int
  assume st: "s \<le> t"
  consider "t < 1730613600000" | "1730613600000 \<le> s" | "s < 1730613600000" "1730613600000 \<le> t"
    using st by linarith
  then show "localDay newYork2024 s \<le> localDay newYork2024 t"
  proof cases
    case 1
    then have "s < 1730613600000" using st by simp
    with 1 st show ?thesis
      by (simp add: localDay_def LocalTime_newYork2024 day_defs zdiv_mono1)
  next
    case 2
    then have "1730613600000 \<le> t" using st by simp
    with 2 st show ?thesis
      by (simp add: localDay_def LocalTime_newYork2024 day_defs zdiv_mono1)
  next
    case 3
    have "(s - 14400000) div 86400000 \<le> (1730613599999 - 14400000) div 86400000"
      using 3 by (intro zdiv_mono1) simp_all
    moreover have "(1730613600000 - 18000000) div 86400000 \<le> (t - 18000000) div 86400000"
      using 3 by (intro zdiv_mono1) simp_all
    ultimately have "(s - 14400000) div 86400000 \<le> (t - 18000000) div 86400000"
      by simp
    with 3 show ?thesis
      by (simp add: localDay_def LocalTime_newYork2024 day_defs)
  qed
qed

lemma regularWindow_newYork2024: "regularWindow newYork2024 1730653200000"
  by (simp add: regularWindow_def regularDay_def localDay_def daysBefore_def
      LocalTime_newYork2024 UTC_newYork2024 day_defs upt_rec)

lemma getWeeklyStats_newYork_week:
  "dailyDurations (getWeeklyStats newYork2024 1730653200000
      [\<lparr>id_entry = ''a'', bedtime = 1730089800000, wakeTime = 1730118600000, duration = 8,
         note_entry = None, quality = None\<rparr>])
   = [8, 0, 0, 0, 0, 0, 0]"
  unfolding dailyDurations_regular [OF mono_localDay_newYork2024 regularWindow_newYork2024]
  by (simp add: dayTotal_def localDay_def LocalTime_newYork2024 day_defs upt_rec)

text \<open>
  A week in which a day of the window is not regular: Santiago on Wednesday 10 April 2024.
  The Saturday before ends, for the loop, at the first 23:59:59.999; the hour that follows
  is again 23:00 to 24:00 of the same Saturday, and Sunday begins after it.
\<close>

lemma LocalTime_santiago2024:
  "LocalTime santiago2024 t = (if t < 1712458800000 then t - 10800000 else t - 14400000)"
  by (simp add: LocalTime_def santiago2024_def)

lemma UTC_santiago2024:
  "UTC santiago2024 lt = (if lt < 1712448000000 then lt + 10800000 else lt + 14400000)"
  by (simp add: UTC_def santiago2024_def)

lemma daysBefore_santiago2024:
  "daysBefore santiago2024 1712761200000 0 = 1712761200000"
  "daysBefore santiago2024 1712761200000 (Suc 0) = 1712674800000"
  "daysBefore santiago2024 1712761200000 2 = 1712588400000"
  "daysBefore santiago2024 1712761200000 3 = 1712502000000"
  "daysBefore santiago2024 1712761200000 4 = 1712412000000"
  "daysBefore santiago2024 1712761200000 5 = 1712325600000"
  "daysBefore santiago2024 1712761200000 6 = 1712239200000"
  by (simp_all add: daysBefore_def LocalTime_santiago2024 UTC_santiago2024 day_defs)

lemma startOfDay_santiago2024:
  "startOfDay santiago2024 1712761200000 = 1712721600000"
  "startOfDay santiago2024 1712674800000 = 1712635200000"
  "startOfDay santiago2024 1712588400000 = 1712548800000"
  "startOfDay santiago2024 1712502000000 = 1712462400000"
  "startOfDay santiago2024 1712412000000 = 1712372400000"
  "startOfDay santiago2024 1712325600000 = 1712286000000"
  "startOfDay santiago2024 1712239200000 = 1712199600000"
  by (simp_all add: startOfDay_def LocalTime_santiago2024 UTC_santiago2024 day_defs)

lemma endOfDay_santiago2024:
  "endOfDay santiago2024 1712761200000 = 1712807999999"
  "endOfDay santiago2024 1712674800000 = 1712721599999"
  "endOfDay santiago2024 1712588400000 = 1712635199999"
  "endOfDay santiago2024 1712502000000 = 1712548799999"
  "endOfDay santiago2024 1712412000000 = 1712458799999"
  "endOfDay santiago2024 1712325600000 = 1712372399999"
  "endOfDay santiago2024 1712239200000 = 1712285999999"
  by (simp_all add: endOfDay_def LocalTime_santiago2024 UTC_santiago2024 day_defs)

text \<open>
  Claim C5.  For every snapshot, \<open>getWeeklyStats\<close> produces exactly 7 day buckets covering
  the days from 6 days before today up to today, oldest first and today last, each day's
  value being the sum of the durations of all entries whose bedtime falls in that calendar
  day; over an empty repository it returns 7 buckets of zero, average 0 and \<open>totalEntries\<close>
  0.  The code does this where the days of the window are regular
  (\<open>getWeeklyStats_buckets_regular\<close>, \<open>getWeeklyStats_empty\<close>), and misses entries where
  they are not.  In Santiago, an entry with its bedtime at 23:30 on Saturday 6 April 2024,
  in the second passage of that hour, has its bedtime in the third day of the window; that
  day's total is 8 hours, yet the entry lies after the end taken for Saturday and before
  the start taken for Sunday, and is counted in no bucket.
\<close>

theorem getWeeklyStats_santiago_repeated_hour:
  "(let es = [\<lparr>id_entry = ''a'', bedtime = 1712460600000, wakeTime = 1712489400000,
                duration = 8, note_entry = None, quality = None\<rparr>];
        ws = getWeeklyStats santiago2024 1712761200000 es
    in localDay santiago2024 1712460600000 = localDay santiago2024 1712761200000 - 6 + 2
       \<and> dayTotal santiago2024 es (localDay santiago2024 1712761200000 - 6 + 2) = 8
       \<and> endOfDay santiago2024 (daysBefore santiago2024 1712761200000 4) < 1712460600000
       \<and> 1712460600000 < startOfDay santiago2024 (daysBefore santiago2024 1712761200000 3)
       \<and> dailyDurations ws ! 2 = 0
       \<and> dailyDurations ws = [0, 0, 0, 0, 0, 0, 0]
       \<and> totalEntries ws = 1)"
proof -
  have ds: "dailyDurations (getWeeklyStats santiago2024 1712761200000
      [\<lparr>id_entry = ''a'', bedtime = 1712460600000, wakeTime = 1712489400000,
                duration = 8, note_entry = None, quality = None\<rparr>]) = [0, 0, 0, 0, 0, 0, 0]"
    by (simp add: dailyDurations_getWeeklyStats bucketTotal_def upt_rec
        daysBefore_santiago2024 startOfDay_santiago2024 endOfDay_santiago2024)
  have ld: "localDay santiago2024 1712460600000 = 19819"
    "localDay santiago2024 1712761200000 = 19823"
    by (simp_all add: localDay_def LocalTime_santiago2024 day_defs)
  show ?thesis
    unfolding Let_def ds
    by (simp add: ld dayTotal_def getWeeklyStats_def weekLoop_eq Let_def
        daysBefore_santiago2024 startOfDay_santiago2024 endOfDay_santiago2024)
qed

section \<open>Weekly statistics: the average\<close>

lemma dayTotal_nonneg: "\<forall>e\<in>set es. 0 \<le> duration e \<Longrightarrow> 0 \<le> dayTotal z es d"
  by (auto simp: dayTotal_def intro!: sum_list_nonneg)

lemma bucketTotal_nonneg: "\<forall>e\<in>set es. 0 \<le> duration e \<Longrightarrow> 0 \<le> bucketTotal z now es i"
  by (auto simp: bucketTotal_def intro!: sum_list_nonneg)

lemma dayTotal_outside: "\<forall>e\<in>set es. localDay z (bedtime e) \<noteq> d \<Longrightarrow> dayTotal z es d = 0"
proof -
  assume "\<forall>e\<in>set es. localDay z (bedtime e) \<noteq> d"
  then have "filter (\<lambda>e. localDay z (bedtime e) = d) es = []"
    by (simp add: filter_empty_conv)
  then show ?thesis by (simp add: dayTotal_def)
qed

text \<open>
  Claim C4 (as amended).  For every snapshot, the average that \<open>getWeeklyStats\<close> reports is
  the average over the days of the window whose total is strictly positive, rounded to one
  decimal place; it is 0 when no day has a positive total, in particular (where the days of
  the window are regular) when no entry's bedtime lies in the window; and \<open>totalEntries\<close> is
  the size of the whole repository.  When no entry has a negative duration, the days with a
  positive total are the days with a nonzero total.
\<close>

theorem getWeeklyStats_average:
  "rounded1 (averageDuration (getWeeklyStats z now es))
            (averageOfPositive (dailyDurations (getWeeklyStats z now es)))
   \<and> (filter (\<lambda>d. 0 < d) (dailyDurations (getWeeklyStats z now es)) = []
        \<longrightarrow> averageDuration (getWeeklyStats z now es) = 0)
   \<and> (mono (localDay z) \<and> regularWindow z now
        \<and> (\<forall>e\<in>set es. localDay z (bedtime e) < localDay z now - 6
                     \<or> localDay z now < localDay z (bedtime e))
        \<longrightarrow> averageDuration (getWeeklyStats z now es) = 0)
   \<and> ((\<forall>e\<in>set es. 0 \<le> duration e)
        \<longrightarrow> averageOfPositive (dailyDurations (getWeeklyStats z now es))
            = averageOfNonzero (dailyDurations (getWeeklyStats z now es)))
   \<and> totalEntries (getWeeklyStats z now es) = length es"
proof (intro conjI impI)
  let ?ds = "dailyDurations (getWeeklyStats z now es)"
  show "rounded1 (averageDuration (getWeeklyStats z now es)) (averageOfPositive ?ds)"
    unfolding averageDuration_getWeeklyStats by (rule rounded1_Math_round)
  show "averageDuration (getWeeklyStats z now es) = 0" if "filter (\<lambda>d. 0 < d) ?ds = []"
  proof -
    have "averageOfPositive ?ds = 0" using that by (simp add: averageOfPositive_def)
    then show ?thesis unfolding averageDuration_getWeeklyStats by (simp add: Math_round_def)
  qed
  show "averageDuration (getWeeklyStats z now es) = 0"
    if hyp: "mono (localDay z) \<and> regularWindow z now
        \<and> (\<forall>e\<in>set es. localDay z (bedtime e) < localDay z now - 6
                     \<or> localDay z now < localDay z (bedtime e))"
  proof -
    from hyp have m: "mono (localDay z)" and w: "regularWindow z now"
      and out: "\<forall>e\<in>set es. localDay z (bedtime e) < localDay z now - 6
                     \<or> localDay z now < localDay z (bedtime e)"
      by simp_all
    have "dayTotal z es (localDay z now - 6 + int k) = 0" if "k < 7" for k :: nat
      using out that by (intro dayTotal_outside) auto
    then have "\<forall>d\<in>set ?ds. d = 0"
      unfolding dailyDurations_regular [OF m w] by auto
    then have "filter (\<lambda>d. 0 < d) ?ds = []"
      by (auto simp: filter_empty_conv)
    then have "averageOfPositive ?ds = 0" by (simp add: averageOfPositive_def)
    then show ?thesis unfolding averageDuration_getWeeklyStats by (simp add: Math_round_def)
  qed
  show "averageOfPositive ?ds = averageOfNonzero ?ds" if nn: "\<forall>e\<in>set es. 0 \<le> duration e"
  proof -
    have "\<forall>d\<in>set ?ds. 0 \<le> d"
      unfolding dailyDurations_getWeeklyStats using bucketTotal_nonneg [OF nn] by auto
    then have "filter (\<lambda>d. 0 < d) ?ds = filter (\<lambda>d. d \<noteq> 0) ?ds"
      by (intro filter_cong) auto
    then show ?thesis by (simp add: averageOfPositive_def averageOfNonzero_def)
  qed
  show "totalEntries (getWeeklyStats z now es) = length es"
    by (simp add: getWeeklyStats_def weekLoop_eq Let_def)
qed

text \<open>
  The theorem in a zone without changes of offset (UTC), at two snapshots: one entry of 8
  hours with its bedtime ten days before today (outside the window: no day with a positive
  total, average 0, \<open>totalEntries\<close> 1), and a day with entries of 3 and 2 hours next to a
  day with one entry of 8 hours (no negative duration; average (5 + 8) / 2 = 6.5).
\<close>

theorem getWeeklyStats_average_witness:
  "mono (localDay (fixedZone 0))
   \<and> regularWindow (fixedZone 0) 1728000000
   \<and> localDay (fixedZone 0) 864000000 < localDay (fixedZone 0) 1728000000 - 6
   \<and> filter (\<lambda>d. 0 < d) (dailyDurations (getWeeklyStats (fixedZone 0) 1728000000
        [\<lparr>id_entry = ''old'', bedtime = 864000000, wakeTime = 892800000, duration = 8,
          note_entry = None, quality = None\<rparr>])) = []
   \<and> averageDuration (getWeeklyStats (fixedZone 0) 1728000000
        [\<lparr>id_entry = ''old'', bedtime = 864000000, wakeTime = 892800000, duration = 8,
          note_entry = None, quality = None\<rparr>]) = 0
   \<and> totalEntries (getWeeklyStats (fixedZone 0) 1728000000
        [\<lparr>id_entry = ''old'', bedtime = 864000000, wakeTime = 892800000, duration = 8,
          note_entry = None, quality = None\<rparr>]) = 1
   \<and> (0 :: real) \<le> 3 \<and> (0 :: real) \<le> 2 \<and> (0 :: real) \<le> 8
   \<and> averageOfNonzero (dailyDurations (getWeeklyStats (fixedZone 0) 522000000
        [\<lparr>id_entry = ''c'', bedtime = 520200000, wakeTime = 531000000, duration = 3,
          note_entry = None, quality = None\<rparr>,
         \<lparr>id_entry = ''b'', bedtime = 518400000, wakeTime = 525600000, duration = 2,
          note_entry = None, quality = None\<rparr>,
         \<lparr>id_entry = ''a'', bedtime = 514800000, wakeTime = 543600000, duration = 8,
          note_entry = None, quality = None\<rparr>])) = 13 / 2
   \<and> rounded1 (averageDuration (getWeeklyStats (fixedZone 0) 522000000
        [\<lparr>id_entry = ''c'', bedtime = 520200000, wakeTime = 531000000, duration = 3,
          note_entry = None, quality = None\<rparr>,
         \<lparr>id_entry = ''b'', bedtime = 518400000, wakeTime = 525600000, duration = 2,
          note_entry = None, quality = None\<rparr>,
         \<lparr>id_entry = ''a'', bedtime = 514800000, wakeTime = 543600000, duration = 8,
          note_entry = None, quality = None\<rparr>])) (13 / 2)
   \<and> averageDuration (getWeeklyStats (fixedZone 0) 522000000
        [\<lparr>id_entry = ''c'', bedtime = 520200000, wakeTime = 531000000, duration = 3,
          note_entry = None, quality = None\<rparr>,
         \<lparr>id_entry = ''b'', bedtime = 518400000, wakeTime = 525600000, duration = 2,
          note_entry = None, quality = None\<rparr>,
         \<lparr>id_entry = ''a'', bedtime = 514800000, wakeTime = 543600000, duration = 8,
          note_entry = None, quality = None\<rparr>]) = 13 / 2"
proof -
  let ?old = "[\<lparr>id_entry = ''old'', bedtime = 864000000, wakeTime = 892800000, duration = 8 :: real,
          note_entry = None, quality = None\<rparr>]"
  let ?es = "[\<lparr>id_entry = ''c'', bedtime = 520200000, wakeTime = 531000000, duration = 3 :: real,
          note_entry = None, quality = None\<rparr>,
         \<lparr>id_entry = ''b'', bedtime = 518400000, wakeTime = 525600000, duration = 2,
          note_entry = None, quality = None\<rparr>,
         \<lparr>id_entry = ''a'', bedtime = 514800000, wakeTime = 543600000, duration = 8,
          note_entry = None, quality = None\<rparr>]"
  have m: "mono (localDay (fixedZone 0))"
    by (rule mono_localDay_fixedZone)
  have w: "regularWindow (fixedZone 0) 1728000000"
    by (rule regularWindow_fixedZone)
  have out: "localDay (fixedZone 0) 864000000 < localDay (fixedZone 0) 1728000000 - 6"
    by (simp add: localDay_fixedZone)
  have none: "filter (\<lambda>d. 0 < d)
      (dailyDurations (getWeeklyStats (fixedZone 0) 1728000000 ?old)) = []"
    by (simp add: dailyDurations_fixedZone dayTotal_def localDay_fixedZone upt_rec)
  have old: "averageDuration (getWeeklyStats (fixedZone 0) 1728000000 ?old) = 0
        \<and> totalEntries (getWeeklyStats (fixedZone 0) 1728000000 ?old) = 1"
    using getWeeklyStats_average [of "fixedZone 0" 1728000000 ?old] m w out by simp
  have new: "averageOfNonzero (dailyDurations (getWeeklyStats (fixedZone 0) 522000000 ?es)) = 13 / 2
      \<and> rounded1 (averageDuration (getWeeklyStats (fixedZone 0) 522000000 ?es)) (13 / 2)"
  proof -
    have p: "averageOfPositive (dailyDurations (getWeeklyStats (fixedZone 0) 522000000 ?es))
        = 13 / 2"
      by (simp add: dailyDurations_fixedZone averageOfPositive_def dayTotal_def
          localDay_fixedZone upt_rec)
    have nn: "\<forall>e\<in>set ?es. 0 \<le> duration e"
      by simp
    have r: "rounded1 (averageDuration (getWeeklyStats (fixedZone 0) 522000000 ?es))
            (averageOfPositive (dailyDurations (getWeeklyStats (fixedZone 0) 522000000 ?es)))"
      using getWeeklyStats_average [of "fixedZone 0" 522000000 ?es] by blast
    have q: "averageOfPositive (dailyDurations (getWeeklyStats (fixedZone 0) 522000000 ?es))
            = averageOfNonzero (dailyDurations (getWeeklyStats (fixedZone 0) 522000000 ?es))"
      using getWeeklyStats_average [of "fixedZone 0" 522000000 ?es] nn by blast
    have nz: "averageOfNonzero (dailyDurations (getWeeklyStats (fixedZone 0) 522000000 ?es))
        = 13 / 2"
      unfolding q [symmetric] by (rule p)
    have r2: "rounded1 (averageDuration (getWeeklyStats (fixedZone 0) 522000000 ?es)) (13 / 2)"
      using r unfolding p .
    show ?thesis by (intro conjI nz r2)
  qed
  have avg: "averageDuration (getWeeklyStats (fixedZone 0) 522000000 ?es) = 13 / 2"
    by (simp add: averageDuration_getWeeklyStats dailyDurations_fixedZone
        averageOfPositive_def dayTotal_def localDay_fixedZone upt_rec Math_round_def)
  have z: "(0 :: real) \<le> 3" "(0 :: real) \<le> 2" "(0 :: real) \<le> 8"
    by simp_all
  show ?thesis using m w out none old z new avg by blast
qed

text \<open>
  The claim as stated fails where a day's total is negative.  \<open>addEntry\<close> with a wake time
  two days before the bedtime stores a duration of -24 hours; that day's total is not zero,
  yet the day is left out of the average: the average reported is 0, not -24.
\<close>

theorem getWeeklyStats_negative_day_counterexample:
  "(let s = snd (addEntry True ''e1'' 172800000 0 None
                  \<lparr>entries = [], loading = False, error = None, stored = None\<rparr>);
        ws = getWeeklyStats (fixedZone 0) 176400000 (entries s)
    in duration (hd (entries s)) = calculateDuration 172800000 0
       \<and> dailyDurations ws = [0, 0, 0, 0, 0, 0, - 24]
       \<and> averageOfNonzero (dailyDurations ws) = - 24
       \<and> averageDuration ws = 0
       \<and> \<not> rounded1 (averageDuration ws) (averageOfNonzero (dailyDurations ws)))"
proof -
  have cd: "calculateDuration 172800000 0 = - 24"
    by (simp add: calculateDuration_def Math_round_def)
  have ds: "dailyDurations (getWeeklyStats (fixedZone 0) 176400000
      [\<lparr>id_entry = ''e1'', bedtime = 172800000, wakeTime = 0, duration = - 24,
        note_entry = None, quality = None\<rparr>]) = [0, 0, 0, 0, 0, 0, - 24]"
    by (simp add: dailyDurations_fixedZone dayTotal_def localDay_fixedZone upt_rec)
  show ?thesis
    unfolding Let_def addEntry_def saveEntries_def trimmedNote_def cd
    by (simp add: ds averageDuration_getWeeklyStats averageOfNonzero_def averageOfPositive_def
        Math_round_def rounded1_def)
qed

section \<open>The two backends\<close>

lemma weekLoop_remote_eq: "weekLoop_remote z now es n acc = weekLoop z now es n acc"
  by (induction z now es n acc rule: weekLoop.induct) simp_all

text \<open>
  Claim C6.  The local-only and the remote-synced hook agree on the storage and statistics
  logic: for every input, \<open>calculateDuration\<close>, \<open>formatDuration\<close> and \<open>getWeeklyStats\<close> (on
  the same snapshot, at the same instant and in the same time zone) return the same results
  in both.
\<close>

theorem backends_agree:
  "calculateDuration bed wake = calculateDuration_remote bed wake
   \<and> formatDuration hours = formatDuration_remote hours
   \<and> getWeeklyStats z now es = getWeeklyStats_remote z now es"
  by (simp add: calculateDuration_def calculateDuration_remote_def formatDuration_def
      formatDuration_remote_def getWeeklyStats_def getWeeklyStats_remote_def weekLoop_remote_eq)

section \<open>Order of the snapshot\<close>

text \<open>Loading and updating sort the snapshot; adding puts the new entry at the head.\<close>

lemma sortedDesc_sortByBedtimeDesc: "sortedDesc (sortByBedtimeDesc xs)"
proof -
  have "sorted (map (\<lambda>e. - bedtime e) (sort_key (\<lambda>e. - bedtime e) xs))"
    by (rule sorted_sort_key)
  then show ?thesis
    by (simp add: sortedDesc_def sortByBedtimeDesc_def sorted_map)
qed

lemma set_sortByBedtimeDesc: "set (sortByBedtimeDesc xs) = set xs"
  by (simp add: sortByBedtimeDesc_def)

lemma length_sortByBedtimeDesc: "length (sortByBedtimeDesc xs) = length xs"
  by (simp add: sortByBedtimeDesc_def)

lemma loadEntries_sorted: "sortedDesc (entries (loadEntries True s))"
  by (simp add: loadEntries_def Let_def sortedDesc_sortByBedtimeDesc split: option.split)
    (simp add: sortedDesc_def)

lemma updateEntry_sorted:
  "updateEntry write_ok id' bed wake note s = (Inr (Some e), s') \<Longrightarrow> sortedDesc (entries s')"
  by (auto simp: updateEntry_def saveEntries_def Let_def sortedDesc_sortByBedtimeDesc
      split: option.splits if_splits)

lemma updateEntry_remote_sorted:
  "updateEntry_remote user db_update id' bed wake note q s = (Inr (Some e), s')
     \<Longrightarrow> sortedDesc (entries s')"
  by (auto simp: updateEntry_remote_def Let_def sortedDesc_sortByBedtimeDesc
      split: option.splits sum.splits)

lemma addEntry_prepends:
  "entries (snd (addEntry True newId bed wake note s)) =
     \<lparr>id_entry = newId, bedtime = bed, wakeTime = wake, duration = calculateDuration bed wake,
      note_entry = trimmedNote note, quality = None\<rparr> # entries s"
  by (simp add: addEntry_def saveEntries_def Let_def)

lemma addEntry_earlier_unsorted:
  "entries s = e # es \<Longrightarrow> bed < bedtime e
     \<Longrightarrow> \<not> sortedDesc (entries (snd (addEntry True newId bed wake note s)))"
  by (simp add: addEntry_prepends sortedDesc_def)

lemma addEntry_remote_prepends:
  "db_insert \<lparr>ins_user_id = uid, ins_bedtime = bed, ins_wake_time = wake,
              ins_duration = calculateDuration_remote bed wake,
              ins_note = trimmedNote note, ins_quality = truthyNumber q\<rparr> = Inr data
   \<Longrightarrow> entries (snd (addEntry_remote (Some uid) db_insert bed wake note q s)) =
         toSleepEntry data # entries s"
  by (simp add: addEntry_remote_def Let_def)

text \<open>
  Claim C2.  After any sequence of add and update operations, starting from a loaded
  snapshot, the snapshot is sorted by bedtime in descending order, also when add is given a
  bedtime earlier than those of the existing entries.  The specification's own sentence
  allows ties, so the order is read as \<open>sortedDesc\<close>; the strict reading is
  \<open>strictlySortedDesc\<close>.  The code does not keep the invariant under either reading:
  \<open>loadEntries\<close> and \<open>updateEntry\<close> sort, \<open>addEntry\<close> does not.  A snapshot is loaded
  with one entry (bedtime on day 1 at 22:00); an entry with its bedtime on day 0 at 22:00
  is added; the snapshot then lists the earlier bedtime first.  Both hooks do so.
\<close>

theorem addEntry_backfill_unsorted:
  "(let loaded = loadEntries True
       \<lparr>entries = [], loading = True, error = None,
        stored = Some [\<lparr>id_entry = ''a'', bedtime = 165600000, wakeTime = 194400000,
                        duration = 8, note_entry = None, quality = None\<rparr>]\<rparr>;
        added = snd (addEntry True ''b'' 79200000 108000000 None loaded)
    in sortedDesc (entries loaded)
       \<and> map bedtime (entries added) = [79200000, 165600000]
       \<and> \<not> sortedDesc (entries added)
       \<and> \<not> strictlySortedDesc (entries added))
   \<and> (let loaded = loadEntries_remote (Some ''u1'')
       (\<lambda>uid. Inr (Some [\<lparr>db_id = ''a'', db_user_id = ''u1'', db_bedtime = 165600000,
                            db_wake_time = 194400000, db_duration = 8, db_note = None,
                            db_quality = None, db_created_at = ''t0''\<rparr>]))
       \<lparr>entries = [], loading = True, error = None\<rparr>;
        added = snd (addEntry_remote (Some ''u1'')
          (\<lambda>p. Inr \<lparr>db_id = ''b'', db_user_id = ins_user_id p, db_bedtime = ins_bedtime p,
                      db_wake_time = ins_wake_time p, db_duration = ins_duration p,
                      db_note = ins_note p, db_quality = ins_quality p, db_created_at = ''t1''\<rparr>)
          79200000 108000000 None None loaded)
    in sortedDesc (entries loaded)
       \<and> map bedtime (entries added) = [79200000, 165600000]
       \<and> \<not> sortedDesc (entries added)
       \<and> \<not> strictlySortedDesc (entries added))"
  by (simp add: Let_def loadEntries_def loadEntries_remote_def addEntry_def addEntry_remote_def
      saveEntries_def sortByBedtimeDesc_def sortedDesc_def strictlySortedDesc_def toSleepEntry_def truthyString_def
      truthyNumber_def trimmedNote_def)

section \<open>Deleting an entry that is not there\<close>

lemma filter_id_missing:
  "id' \<notin> id_entry ` set es \<Longrightarrow> filter (\<lambda>e. id_entry e \<noteq> id') es = es"
  by (induction es) auto

lemma deleteEntry_missing: "id' \<notin> id_entry ` set (entries s) \<Longrightarrow> deleteEntry write_ok id' s = (Inr False, s)"
  by (simp add: deleteEntry_def Let_def filter_id_missing)

lemma deleteEntry_remote_missing:
  "id' \<notin> id_entry ` set (entries s) \<Longrightarrow> db_delete id' uid = None
     \<Longrightarrow> deleteEntry_remote (Some uid) db_delete id' s = (Inr True, s)"
  by (simp add: deleteEntry_remote_def filter_id_missing)

text \<open>
  Claim C3.  For every snapshot and every id not present in it, delete reports the
  unsuccessful result and leaves the snapshot unchanged, in both hooks.  The local-only hook
  does (\<open>deleteEntry_missing\<close>).  The remote-synced hook leaves the snapshot unchanged but
  reports success: a request that deletes no row returns no error, and the hook then returns
  \<^verbatim>\<open>true\<close>.  Below: the same snapshot and the same absent id in both hooks.
\<close>

theorem deleteEntry_remote_missing_succeeds:
  "deleteEntry_remote (Some ''u1'') (\<lambda>id' uid. None) ''missing''
     \<lparr>entries = [\<lparr>id_entry = ''a'', bedtime = 165600000, wakeTime = 194400000,
                   duration = 8, note_entry = None, quality = None\<rparr>],
      loading = False, error = None\<rparr>
   = (Inr True,
      \<lparr>entries = [\<lparr>id_entry = ''a'', bedtime = 165600000, wakeTime = 194400000,
                   duration = 8, note_entry = None, quality = None\<rparr>],
       loading = False, error = None\<rparr>)
   \<and> deleteEntry True ''missing''
     \<lparr>entries = [\<lparr>id_entry = ''a'', bedtime = 165600000, wakeTime = 194400000,
                   duration = 8, note_entry = None, quality = None\<rparr>],
      loading = False, error = None,
      stored = Some [\<lparr>id_entry = ''a'', bedtime = 165600000, wakeTime = 194400000,
                   duration = 8, note_entry = None, quality = None\<rparr>]\<rparr>
   = (Inr False,
      \<lparr>entries = [\<lparr>id_entry = ''a'', bedtime = 165600000, wakeTime = 194400000,
                   duration = 8, note_entry = None, quality = None\<rparr>],
      loading = False, error = None,
      stored = Some [\<lparr>id_entry = ''a'', bedtime = 165600000, wakeTime = 194400000,
                   duration = 8, note_entry = None, quality = None\<rparr>]\<rparr>)"
  by (simp add: deleteEntry_remote_def deleteEntry_def Let_def)

section \<open>A failed write\<close>

text \<open>
  Claim C7.  For every snapshot and every input, when the backend write fails, add fails
  with a storage error and the snapshot is the same before and after: in the local-only
  hook the entries are unchanged (the error flag is set), in the remote-synced hook the
  whole state is.
\<close>

theorem addEntry_failed_write:
  "(\<not> write_ok \<longrightarrow>
      fst (addEntry write_ok newId bed wake note s) = Inl StorageError
      \<and> entries (snd (addEntry write_ok newId bed wake note s)) = entries s)
   \<and> (isl (db_insert \<lparr>ins_user_id = uid, ins_bedtime = bed, ins_wake_time = wake,
                        ins_duration = calculateDuration_remote bed wake,
                        ins_note = trimmedNote note, ins_quality = truthyNumber q\<rparr>) \<longrightarrow>
      addEntry_remote (Some uid) db_insert bed wake note q t = (Inl StorageError, t))"
  by (auto simp: addEntry_def saveEntries_def addEntry_remote_def Let_def isl_def)

text \<open>The theorem at a snapshot of one entry, with a write that fails in each hook.\<close>

theorem addEntry_failed_write_witness:
  "\<not> False
   \<and> fst (addEntry False ''n1'' 79200000 111600000 (Some ''slept well'')
        \<lparr>entries = [\<lparr>id_entry = ''a'', bedtime = 0, wakeTime = 28800000, duration = 8,
                      note_entry = None, quality = None\<rparr>],
         loading = False, error = None,
         stored = Some [\<lparr>id_entry = ''a'', bedtime = 0, wakeTime = 28800000, duration = 8,
                      note_entry = None, quality = None\<rparr>]\<rparr>) = Inl StorageError
   \<and> entries (snd (addEntry False ''n1'' 79200000 111600000 (Some ''slept well'')
        \<lparr>entries = [\<lparr>id_entry = ''a'', bedtime = 0, wakeTime = 28800000, duration = 8,
                      note_entry = None, quality = None\<rparr>],
         loading = False, error = None,
         stored = Some [\<lparr>id_entry = ''a'', bedtime = 0, wakeTime = 28800000, duration = 8,
                      note_entry = None, quality = None\<rparr>]\<rparr>))
       = [\<lparr>id_entry = ''a'', bedtime = 0, wakeTime = 28800000, duration = 8,
                      note_entry = None, quality = None\<rparr>]
   \<and> isl ((\<lambda>p. Inl (PostgrestError ''503'') :: PostgrestError + DbSleepEntry)
             \<lparr>ins_user_id = ''u1'', ins_bedtime = 79200000, ins_wake_time = 111600000,
              ins_duration = calculateDuration_remote 79200000 111600000,
              ins_note = trimmedNote (Some ''slept well''), ins_quality = truthyNumber (Some 4)\<rparr>)
   \<and> addEntry_remote (Some ''u1'') (\<lambda>p. Inl (PostgrestError ''503'')) 79200000 111600000
         (Some ''slept well'') (Some 4)
         \<lparr>entries = [\<lparr>id_entry = ''a'', bedtime = 0, wakeTime = 28800000, duration = 8,
                      note_entry = None, quality = None\<rparr>], loading = False, error = None\<rparr>
       = (Inl StorageError,
          \<lparr>entries = [\<lparr>id_entry = ''a'', bedtime = 0, wakeTime = 28800000, duration = 8,
                      note_entry = None, quality = None\<rparr>], loading = False, error = None\<rparr>)"
  using addEntry_failed_write [of False "''n1''" 79200000 111600000 "Some ''slept well''"
      "\<lparr>entries = [\<lparr>id_entry = ''a'', bedtime = 0, wakeTime = 28800000, duration = 8,
                      note_entry = None, quality = None\<rparr>],
         loading = False, error = None,
         stored = Some [\<lparr>id_entry = ''a'', bedtime = 0, wakeTime = 28800000, duration = 8,
                      note_entry = None, quality = None\<rparr>]\<rparr>"
      "\<lambda>p. Inl (PostgrestError ''503'')" "''u1''" "Some 4"
      "\<lparr>entries = [\<lparr>id_entry = ''a'', bedtime = 0, wakeTime = 28800000, duration = 8,
                      note_entry = None, quality = None\<rparr>], loading = False, error = None\<rparr>"]
  by simp

section \<open>Loading the settings of a user without a record\<close>

text \<open>
  Claim C8 (as amended).  For every user, when the settings load finds no existing record
  (the request fails with code \<^verbatim>\<open>PGRST116\<close>), it asks the store to insert a record with
  exactly the defaults \<open>targetHours = 8.0\<close>, \<open>reminderEnabled = false\<close>,
  \<open>reminderTime = "22:00"\<close>, \<open>onboardingCompleted = false\<close>.  When the insert succeeds,
  the record the store returns becomes the settings; for a store that returns what was
  inserted, these are exactly the defaults.  When the insert fails, the settings are left
  absent.  In either case no error is raised, and loading ends.
\<close>

theorem fetchSettings_no_record:
  assumes "db_select uid = Inl fetchError" and "error_code fetchError = ''PGRST116''"
  shows "(\<forall>row. db_insert \<lparr>si_user_id = uid, si_target_hours = 8, si_reminder_enabled = False,
                    si_reminder_time = ''22:00'', si_onboarding_completed = False\<rparr> = Inr row
            \<longrightarrow> settings (fetchSettings (Some uid) db_select db_insert s) = Some (toUserSettings row))
     \<and> (db_insert \<lparr>si_user_id = uid, si_target_hours = 8, si_reminder_enabled = False,
                    si_reminder_time = ''22:00'', si_onboarding_completed = False\<rparr>
          = Inr (insertedRow \<lparr>si_user_id = uid, si_target_hours = 8, si_reminder_enabled = False,
                    si_reminder_time = ''22:00'', si_onboarding_completed = False\<rparr> newId ts)
            \<longrightarrow> settings (fetchSettings (Some uid) db_select db_insert s)
                = Some \<lparr>id_settings = newId, userId = uid, targetHours = 8,
                        reminderEnabled = False, reminderTime = ''22:00'',
                        onboardingCompleted = False, createdAt = ts, updatedAt = ts\<rparr>)
     \<and> (isl (db_insert \<lparr>si_user_id = uid, si_target_hours = 8, si_reminder_enabled = False,
                    si_reminder_time = ''22:00'', si_onboarding_completed = False\<rparr>)
            \<longrightarrow> settings (fetchSettings (Some uid) db_select db_insert s) = None)
     \<and> error_s (fetchSettings (Some uid) db_select db_insert s) = None
     \<and> loading_s (fetchSettings (Some uid) db_select db_insert s) = False"
  using assms
  by (auto simp: fetchSettings_def createDefaultSettings_def DEFAULT_SETTINGS_def Let_def
      toUserSettings_def insertedRow_def isl_def)

text \<open>The theorem at user \<open>u1\<close>, with a store that returns the inserted row and with
  one that refuses the insert.\<close>

theorem fetchSettings_no_record_witness:
  "(\<lambda>uid. Inl (PostgrestError ''PGRST116'') :: PostgrestError + DbUserSettings) ''u1''
      = Inl (PostgrestError ''PGRST116'')
   \<and> error_code (PostgrestError ''PGRST116'') = ''PGRST116''
   \<and> settings (fetchSettings (Some ''u1'') (\<lambda>uid. Inl (PostgrestError ''PGRST116''))
        (\<lambda>p. Inr (insertedRow p ''s1'' ''2026-01-01T00:00:00.000Z''))
        \<lparr>settings = None, loading_s = True, error_s = None, service_calls = [], os_requests = []\<rparr>)
      = Some \<lparr>id_settings = ''s1'', userId = ''u1'', targetHours = 8,
               reminderEnabled = False, reminderTime = ''22:00'',
               onboardingCompleted = False, createdAt = ''2026-01-01T00:00:00.000Z'',
               updatedAt = ''2026-01-01T00:00:00.000Z''\<rparr>
   \<and> error_s (fetchSettings (Some ''u1'') (\<lambda>uid. Inl (PostgrestError ''PGRST116''))
        (\<lambda>p. Inr (insertedRow p ''s1'' ''2026-01-01T00:00:00.000Z''))
        \<lparr>settings = None, loading_s = True, error_s = None, service_calls = [], os_requests = []\<rparr>) = None
   \<and> isl ((\<lambda>p. Inl (PostgrestError ''503'') :: PostgrestError + DbUserSettings)
          \<lparr>si_user_id = ''u1'', si_target_hours = 8, si_reminder_enabled = False,
           si_reminder_time = ''22:00'', si_onboarding_completed = False\<rparr>)
   \<and> settings (fetchSettings (Some ''u1'') (\<lambda>uid. Inl (PostgrestError ''PGRST116''))
        (\<lambda>p. Inl (PostgrestError ''503''))
        \<lparr>settings = None, loading_s = True, error_s = None, service_calls = [], os_requests = []\<rparr>) = None
   \<and> error_s (fetchSettings (Some ''u1'') (\<lambda>uid. Inl (PostgrestError ''PGRST116''))
        (\<lambda>p. Inl (PostgrestError ''503''))
        \<lparr>settings = None, loading_s = True, error_s = None, service_calls = [], os_requests = []\<rparr>) = None"
proof -
  let ?sel = "\<lambda>uid. Inl (PostgrestError ''PGRST116'') :: PostgrestError + DbUserSettings"
  let ?ins = "\<lambda>p. Inr (insertedRow p ''s1'' ''2026-01-01T00:00:00.000Z'')
                :: PostgrestError + DbUserSettings"
  let ?bad = "\<lambda>p. Inl (PostgrestError ''503'') :: PostgrestError + DbUserSettings"
  let ?s = "\<lparr>settings = None, loading_s = True, error_s = None, service_calls = [], os_requests = []\<rparr>"
  have a: "?sel ''u1'' = Inl (PostgrestError ''PGRST116'')" by simp
  have b: "error_code (PostgrestError ''PGRST116'') = ''PGRST116''" by simp
  note ok = fetchSettings_no_record [where db_select = ?sel and uid = "''u1''"
      and fetchError = "PostgrestError ''PGRST116''" and db_insert = ?ins and s = ?s
      and newId = "''s1''" and ts = "''2026-01-01T00:00:00.000Z''", OF a b]
  note bad = fetchSettings_no_record [where db_select = ?sel and uid = "''u1''"
      and fetchError = "PostgrestError ''PGRST116''" and db_insert = ?bad and s = ?s
      and newId = "''s1''" and ts = "''2026-01-01T00:00:00.000Z''", OF a b]
  from ok bad show ?thesis by (simp add: toUserSettings_def insertedRow_def)
qed

text \<open>
  The claim as stated fails when the insert fails: no record is created and none is
  returned; the caller sees absent settings, and no error.
\<close>

theorem fetchSettings_insert_fails_counterexample:
  "fetchSettings (Some ''u1'') (\<lambda>uid. Inl (PostgrestError ''PGRST116''))
        (\<lambda>p. Inl (PostgrestError ''503''))
        \<lparr>settings = None, loading_s = True, error_s = None, service_calls = [], os_requests = []\<rparr>
   = \<lparr>settings = None, loading_s = False, error_s = None, service_calls = [], os_requests = []\<rparr>"
  by (simp add: fetchSettings_def createDefaultSettings_def Let_def)

section \<open>Updating the settings and the reminder\<close>

text \<open>
  What the notification service does behind its interface: \<open>scheduleBedtimeReminder\<close> first
  cancels all scheduled notifications and then schedules one; \<open>cancelBedtimeReminder\<close> only
  cancels.  Neither can fail.
\<close>

lemma scheduleBedtimeReminder_requests:
  "scheduleBedtimeReminder env t h requests =
     (schedule_id env,
      requests @ [CancelAllScheduledNotifications (cancel_ok env),
                  ScheduleNotification t h (schedule_id env)])"
  by (simp add: scheduleBedtimeReminder_def cancelBedtimeReminder_def Let_def)

lemma updateSettings_os_requests:
  assumes "settings s \<noteq> None"
    and "db_update uid \<lparr>su_target_hours = in_targetHours updates,
                         su_reminder_enabled = in_reminderEnabled updates,
                         su_reminder_time = in_reminderTime updates,
                         su_onboarding_completed = in_onboardingCompleted updates,
                         su_updated_at = Some nowIso\<rparr> = Inr data"
  shows "os_requests (snd (updateSettings (Some uid) db_update nowIso env updates s)) =
     os_requests s @
       (if reminder_enabled data
        then [CancelAllScheduledNotifications (cancel_ok env),
              ScheduleNotification (reminder_time data) (target_hours data) (schedule_id env)]
        else [CancelAllScheduledNotifications (cancel_ok env)])"
  using assms
  by (simp add: updateSettings_def Let_def toUserSettings_def scheduleBedtimeReminder_requests
      cancelBedtimeReminder_def)

text \<open>
  Claim C9.  For every settings update that succeeds: if the merged record has
  \<open>reminderEnabled = true\<close>, the scheduling function of the notification service is
  invoked exactly once, with the record's \<open>reminderTime\<close> and \<open>targetHours\<close>, and its
  cancel-all function is not invoked; if \<open>reminderEnabled = false\<close>, cancel-all is
  invoked exactly once and scheduling is not; never both in one update.  The update adds
  exactly one call to the log of calls made at the interface of the service.  Whether the
  requests behind that interface succeed or fail (\<open>env\<close> is arbitrary), the update
  succeeds.
\<close>

theorem updateSettings_one_service_call:
  assumes "settings s \<noteq> None"
    and "db_update uid \<lparr>su_target_hours = in_targetHours updates,
                         su_reminder_enabled = in_reminderEnabled updates,
                         su_reminder_time = in_reminderTime updates,
                         su_onboarding_completed = in_onboardingCompleted updates,
                         su_updated_at = Some nowIso\<rparr> = Inr data"
  shows "fst (updateSettings (Some uid) db_update nowIso env updates s) = True
     \<and> settings (snd (updateSettings (Some uid) db_update nowIso env updates s))
         = Some (toUserSettings data)
     \<and> (reminderEnabled (toUserSettings data) \<longrightarrow>
          service_calls (snd (updateSettings (Some uid) db_update nowIso env updates s))
          = service_calls s @
            [ScheduleBedtimeReminder (reminderTime (toUserSettings data))
               (targetHours (toUserSettings data))])
     \<and> (\<not> reminderEnabled (toUserSettings data) \<longrightarrow>
          service_calls (snd (updateSettings (Some uid) db_update nowIso env updates s))
          = service_calls s @ [CancelBedtimeReminder])"
  using assms
  by (simp add: updateSettings_def Let_def)

text \<open>
  The theorem at an update that enables the reminder for 07:00 and at one that disables
  it, with an operating system that refuses every request: each update succeeds and makes
  one call, the first to schedule with ("07:00", 8), the second to cancel.
\<close>

theorem updateSettings_one_service_call_witness:
  "fst (updateSettings (Some ''u1'') (\<lambda>uid u. Inr (updatedRow \<lparr>dbs_id = ''s1'', user_id = ''u1'', target_hours = 8, reminder_enabled = False,
            reminder_time = ''22:00'', onboarding_completed = True, created_at = ''t0'',
            updated_at = ''t0''\<rparr> u)) ''t1''
          \<lparr>cancel_ok = False, schedule_id = None\<rparr>
          \<lparr>in_targetHours = None, in_reminderEnabled = Some True,
          in_reminderTime = Some ''07:00'', in_onboardingCompleted = None\<rparr>
          \<lparr>settings = Some (toUserSettings \<lparr>dbs_id = ''s1'', user_id = ''u1'', target_hours = 8, reminder_enabled = False,
            reminder_time = ''22:00'', onboarding_completed = True, created_at = ''t0'',
            updated_at = ''t0''\<rparr>), loading_s = False, error_s = None,
          service_calls = [], os_requests = []\<rparr>) = True
   \<and> service_calls (snd (updateSettings (Some ''u1'') (\<lambda>uid u. Inr (updatedRow \<lparr>dbs_id = ''s1'', user_id = ''u1'', target_hours = 8, reminder_enabled = False,
            reminder_time = ''22:00'', onboarding_completed = True, created_at = ''t0'',
            updated_at = ''t0''\<rparr> u)) ''t1''
          \<lparr>cancel_ok = False, schedule_id = None\<rparr>
          \<lparr>in_targetHours = None, in_reminderEnabled = Some True,
          in_reminderTime = Some ''07:00'', in_onboardingCompleted = None\<rparr>
          \<lparr>settings = Some (toUserSettings \<lparr>dbs_id = ''s1'', user_id = ''u1'', target_hours = 8, reminder_enabled = False,
            reminder_time = ''22:00'', onboarding_completed = True, created_at = ''t0'',
            updated_at = ''t0''\<rparr>), loading_s = False, error_s = None,
          service_calls = [], os_requests = []\<rparr>))
       = [ScheduleBedtimeReminder ''07:00'' 8]
   \<and> fst (updateSettings (Some ''u1'') (\<lambda>uid u. Inr (updatedRow \<lparr>dbs_id = ''s1'', user_id = ''u1'', target_hours = 8, reminder_enabled = True,
            reminder_time = ''07:00'', onboarding_completed = True, created_at = ''t0'',
            updated_at = ''t0''\<rparr> u)) ''t2''
          \<lparr>cancel_ok = False, schedule_id = None\<rparr>
          \<lparr>in_targetHours = None, in_reminderEnabled = Some False,
          in_reminderTime = None, in_onboardingCompleted = None\<rparr>
          \<lparr>settings = Some (toUserSettings \<lparr>dbs_id = ''s1'', user_id = ''u1'', target_hours = 8, reminder_enabled = True,
            reminder_time = ''07:00'', onboarding_completed = True, created_at = ''t0'',
            updated_at = ''t0''\<rparr>), loading_s = False, error_s = None,
          service_calls = [], os_requests = []\<rparr>) = True
   \<and> service_calls (snd (updateSettings (Some ''u1'') (\<lambda>uid u. Inr (updatedRow \<lparr>dbs_id = ''s1'', user_id = ''u1'', target_hours = 8, reminder_enabled = True,
            reminder_time = ''07:00'', onboarding_completed = True, created_at = ''t0'',
            updated_at = ''t0''\<rparr> u)) ''t2''
          \<lparr>cancel_ok = False, schedule_id = None\<rparr>
          \<lparr>in_targetHours = None, in_reminderEnabled = Some False,
          in_reminderTime = None, in_onboardingCompleted = None\<rparr>
          \<lparr>settings = Some (toUserSettings \<lparr>dbs_id = ''s1'', user_id = ''u1'', target_hours = 8, reminder_enabled = True,
            reminder_time = ''07:00'', onboarding_completed = True, created_at = ''t0'',
            updated_at = ''t0''\<rparr>), loading_s = False, error_s = None,
          service_calls = [], os_requests = []\<rparr>))
       = [CancelBedtimeReminder]"
proof -
  let ?env = "\<lparr>cancel_ok = False, schedule_id = None\<rparr>"
  let ?row0 = "\<lparr>dbs_id = ''s1'', user_id = ''u1'', target_hours = 8, reminder_enabled = False,
            reminder_time = ''22:00'', onboarding_completed = True, created_at = ''t0'',
            updated_at = ''t0''\<rparr>"
  let ?row1 = "\<lparr>dbs_id = ''s1'', user_id = ''u1'', target_hours = 8, reminder_enabled = True,
            reminder_time = ''07:00'', onboarding_completed = True, created_at = ''t0'',
            updated_at = ''t0''\<rparr>"
  let ?s0 = "\<lparr>settings = Some (toUserSettings \<lparr>dbs_id = ''s1'', user_id = ''u1'', target_hours = 8, reminder_enabled = False,
            reminder_time = ''22:00'', onboarding_completed = True, created_at = ''t0'',
            updated_at = ''t0''\<rparr>), loading_s = False, error_s = None,
          service_calls = [], os_requests = []\<rparr>"
  let ?s1 = "\<lparr>settings = Some (toUserSettings \<lparr>dbs_id = ''s1'', user_id = ''u1'', target_hours = 8, reminder_enabled = True,
            reminder_time = ''07:00'', onboarding_completed = True, created_at = ''t0'',
            updated_at = ''t0''\<rparr>), loading_s = False, error_s = None,
          service_calls = [], os_requests = []\<rparr>"
  let ?on = "\<lparr>in_targetHours = None, in_reminderEnabled = Some True,
          in_reminderTime = Some ''07:00'', in_onboardingCompleted = None\<rparr>"
  let ?off = "\<lparr>in_targetHours = None, in_reminderEnabled = Some False,
          in_reminderTime = None, in_onboardingCompleted = None\<rparr>"
  have a0: "settings ?s0 \<noteq> None" and a1: "settings ?s1 \<noteq> None"
    by simp_all
  note on = updateSettings_one_service_call [where s = ?s0 and uid = "''u1''" and updates = ?on
      and db_update = "\<lambda>uid u. Inr (updatedRow ?row0 u)" and nowIso = "''t1''" and env = ?env
      and data = "updatedRow ?row0 \<lparr>su_target_hours = None, su_reminder_enabled = Some True,
          su_reminder_time = Some ''07:00'', su_onboarding_completed = None,
          su_updated_at = Some ''t1''\<rparr>", OF a0]
  note off = updateSettings_one_service_call [where s = ?s1 and uid = "''u1''" and updates = ?off
      and db_update = "\<lambda>uid u. Inr (updatedRow ?row1 u)" and nowIso = "''t2''" and env = ?env
      and data = "updatedRow ?row1 \<lparr>su_target_hours = None, su_reminder_enabled = Some False,
          su_reminder_time = None, su_onboarding_completed = None,
          su_updated_at = Some ''t2''\<rparr>", OF a1]
  from on off show ?thesis
    by (simp add: updatedRow_def toUserSettings_def)
qed

end
